theory Spec2Isabelle
  imports Main "HOL-Library.Word"
begin

unbundle bit_operations_syntax

section \<open>Bytes, slices and struct.unpack\<close>

text \<open>
  The image file, every sector read from it and the loaded FAT are Python \<open>bytes\<close>:
  lists of 8-bit words. Cluster numbers, sizes and counts come out of
  \<open>struct.unpack\<close> with the unsigned formats \<open><B\<close>, \<open><H\<close> and \<open><I\<close>; they are
  natural numbers. Logical block addresses are computed with a subtraction
  (\<open>cluster - 2\<close>) and are integers.
\<close>

type_synonym byte = "8 word"

datatype py_error = StructError | ValueError | ZeroDivisionError

text \<open>\<open>data[a:b]\<close> for non-negative \<open>a\<close> and \<open>b\<close>: clipped to the data, never raising.\<close>

definition py_slice :: "nat \<Rightarrow> nat \<Rightarrow> 'a list \<Rightarrow> 'a list" where
  "py_slice a b xs = take (b - a) (drop a xs)"

text \<open>\<open>struct.unpack('<H', bs)[0]\<close>: raises \<open>struct.error\<close> unless \<open>bs\<close> has two bytes.\<close>

definition unpack_H :: "byte list \<Rightarrow> py_error + nat" where
  "unpack_H bs =
     (case bs of
        [b0, b1] \<Rightarrow> Inr (unat b0 + 256 * unat b1)
      | _ \<Rightarrow> Inl StructError)"

section \<open>FAT chain tracing (FAT16Recover.py, trace\_fat\_chain)\<close>

text \<open>
  The \<open>while True\<close> loop of \<open>trace_fat_chain\<close>, with the FAT buffer
  (\<open>GLOBAL_FAT_DATA\<close>) as a parameter. The loop state is \<open>current_cluster\<close> and
  \<open>chain\<close>. The recursive call is reached only when \<open>len(chain) > 65535\<close> is false after
  the append, which is what bounds the loop.
\<close>

function trace_loop :: "byte list \<Rightarrow> nat \<Rightarrow> nat list \<Rightarrow> py_error + nat list" where
  "trace_loop fat current_cluster chain =
     (if current_cluster * 2 + 2 > length fat then Inr chain
      else
        (case unpack_H (py_slice (current_cluster * 2) (current_cluster * 2 + 2) fat) of
           Inl e \<Rightarrow> Inl e
         | Inr next_cluster \<Rightarrow>
             if 0xFFF8 \<le> next_cluster \<and> next_cluster \<le> 0xFFFF then Inr (chain @ [current_cluster])
             else if next_cluster = 0x0000 then Inr (chain @ [current_cluster])
             else if next_cluster = 0xFFF7 then Inr (chain @ [current_cluster])
             else if length (chain @ [current_cluster]) > 65535 then Inr (chain @ [current_cluster])
             else trace_loop fat next_cluster (chain @ [current_cluster])))"
  by pat_completeness auto
termination
  by (relation "measure (\<lambda>(fat, c, chain). 65536 - length chain)") auto

declare trace_loop.simps [simp del]

definition trace_fat_chain :: "byte list \<Rightarrow> nat \<Rightarrow> py_error + nat list" where
  "trace_fat_chain fat start_cluster = trace_loop fat start_cluster []"

text \<open>
  The 16-bit entry of a cluster when its two bytes lie inside the buffer: a reading aid
  for the statements below, not a function of the source.
\<close>

definition fat_entry :: "byte list \<Rightarrow> nat \<Rightarrow> nat option" where
  "fat_entry fat c =
     (if c * 2 + 2 \<le> length fat
      then Some (unat (fat ! (c * 2)) + 256 * unat (fat ! (c * 2 + 1)))
      else None)"

definition is_terminator :: "nat \<Rightarrow> bool" where
  "is_terminator n = ((0xFFF8 \<le> n \<and> n \<le> 0xFFFF) \<or> n = 0x0000 \<or> n = 0xFFF7)"

section \<open>Block reader (FAT16Recover.py, read\_sector)\<close>

text \<open>
  The image file is the list of its bytes. \<open>read_sector\<close> seeks to \<open>lba * 512\<close> and
  reads \<open>512 * count\<close> bytes; a short read gives \<open>None\<close>, and so does every exception
  (a negative seek position raises, and \<open>except Exception\<close> turns it into \<open>None\<close>).
\<close>

definition SECTOR_SIZE :: nat where
  "SECTOR_SIZE = 512"

definition read_sector :: "byte list \<Rightarrow> int \<Rightarrow> nat \<Rightarrow> byte list option" where
  "read_sector img lba count =
     (if lba < 0 then None
      else
        (let data = take (SECTOR_SIZE * count) (drop (nat lba * SECTOR_SIZE) img)
         in if length data \<noteq> SECTOR_SIZE * count then None else Some data))"

text \<open>
  Unsigned little-endian fields of a sector or a directory record (\<open><B\<close>, \<open><H\<close>,
  \<open><I\<close> on a slice of fixed width). The buffers they are applied to come from
  \<open>read_sector\<close>, which returns whole sectors only, so the offsets are in range.
\<close>

definition u8_at :: "byte list \<Rightarrow> nat \<Rightarrow> nat" where
  "u8_at d off = unat (d ! off)"

definition u16_at :: "byte list \<Rightarrow> nat \<Rightarrow> nat" where
  "u16_at d off = unat (d ! off) + 256 * unat (d ! (off + 1))"

definition u32_at :: "byte list \<Rightarrow> nat \<Rightarrow> nat" where
  "u32_at d off =
     unat (d ! off) + 256 * unat (d ! (off + 1))
       + 65536 * unat (d ! (off + 2)) + 16777216 * unat (d ! (off + 3))"

section \<open>Volume setup (FAT16Recover.py, setup\_disk\_params)\<close>

text \<open>
  The module-level globals that \<open>setup_disk_params\<close> fills in, as one record.
  \<open>setup_disk_params\<close> returns \<open>False\<close> (here \<open>None\<close>) or \<open>True\<close> with the globals
  set (here \<open>Some\<close> of the record). \<open>not data\<close> holds for \<open>None\<close> and for empty bytes.
\<close>

record volume =
  PARTITION_START_LBA :: nat
  RESERVED_SECTORS :: nat
  NUM_FATS :: nat
  FAT_SIZE_SECTORS :: nat
  ROOT_DIR_SECTORS :: nat
  SECTORS_PER_CLUSTER :: nat
  FAT1_START_LBA :: nat
  ROOT_DIR_START_LBA :: nat
  DATA_REGION_START_LBA :: nat
  GLOBAL_FAT_DATA :: "byte list"

definition PARTITION_TABLE_OFFSET :: nat where
  "PARTITION_TABLE_OFFSET = 0x1BE"

definition setup_disk_params :: "byte list \<Rightarrow> volume option" where
  "setup_disk_params img =
     (case read_sector img 0 1 of
        None \<Rightarrow> None
      | Some mbr_data \<Rightarrow>
          if mbr_data = [] \<or> py_slice 0x1FE 0x200 mbr_data \<noteq> [0x55, 0xAA] then None
          else
            (let entry_data = py_slice PARTITION_TABLE_OFFSET (PARTITION_TABLE_OFFSET + 16) mbr_data;
                 start_lba = u32_at entry_data 8
             in case read_sector img (int start_lba) 1 of
                  None \<Rightarrow> None
                | Some vbr_data \<Rightarrow>
                    if vbr_data = [] then None
                    else
                      (let spc = u8_at vbr_data 0x0D;
                           reserved = u16_at vbr_data 0x0E;
                           num_fats = u8_at vbr_data 0x10;
                           root_entries = u16_at vbr_data 0x11;
                           fat_size = u16_at vbr_data 0x16;
                           root_dir_sectors = (root_entries * 32 + SECTOR_SIZE - 1) div SECTOR_SIZE;
                           fat1 = start_lba + reserved;
                           root_dir = fat1 + num_fats * fat_size;
                           data_region = root_dir + root_dir_sectors
                       in case read_sector img (int fat1) fat_size of
                            None \<Rightarrow> None
                          | Some fat_data \<Rightarrow>
                              if fat_data = [] then None
                              else Some \<lparr>PARTITION_START_LBA = start_lba,
                                         RESERVED_SECTORS = reserved,
                                         NUM_FATS = num_fats,
                                         FAT_SIZE_SECTORS = fat_size,
                                         ROOT_DIR_SECTORS = root_dir_sectors,
                                         SECTORS_PER_CLUSTER = spc,
                                         FAT1_START_LBA = fat1,
                                         ROOT_DIR_START_LBA = root_dir,
                                         DATA_REGION_START_LBA = data_region,
                                         GLOBAL_FAT_DATA = fat_data\<rparr>)))"

section \<open>Standalone MBR decoder (MBR.py)\<close>

text \<open>
  \<open>read_mbr_from_file\<close> reads the first 512 bytes and gives \<open>None\<close> when the file is
  shorter. \<open>parse_mbr\<close> raises \<open>ValueError\<close> unless it is given exactly 512 bytes; on a
  wrong signature it prints a warning (the second component of the result) and goes on.
  The fields of a partition carry the prefix \<open>part_\<close>; \<open>part_type_id\<close> is kept as the
  number the source renders in hexadecimal.
\<close>

definition MBR_SIZE :: nat where
  "MBR_SIZE = 512"

record partition =
  part_index :: nat
  part_bootable :: bool
  part_type_id :: nat
  part_type_description :: string
  part_start_lba :: nat
  part_size_sectors :: nat
  part_size_bytes :: nat

record mbr_result =
  signature_valid :: bool
  partitions :: "partition list"

datatype mbr_message = SignatureInvalidWarning "byte list"

definition PARTITION_TYPES :: "nat \<Rightarrow> string option" where
  "PARTITION_TYPES =
     [0x04 \<mapsto> ''FAT16 (less than 32MB)'',
      0x06 \<mapsto> ''FAT16'',
      0x0E \<mapsto> ''FAT16 LBA'',
      0x0B \<mapsto> ''FAT32'',
      0x0C \<mapsto> ''FAT32 LBA'',
      0x07 \<mapsto> ''NTFS / exFAT / HPFS'',
      0x05 \<mapsto> ''Extended DOS Partition'',
      0x0F \<mapsto> ''Extended LBA Partition'']"

definition read_mbr_from_file :: "byte list \<Rightarrow> byte list option" where
  "read_mbr_from_file img =
     (let mbr_data = take MBR_SIZE img
      in if length mbr_data \<noteq> MBR_SIZE then None else Some mbr_data)"

definition parse_partition_entry :: "nat \<Rightarrow> byte list \<Rightarrow> partition list" where
  "parse_partition_entry i entry_data =
     (if entry_data = replicate 16 0 then []
      else
        [\<lparr>part_index = i + 1,
          part_bootable = (u8_at entry_data 0 = 0x80),
          part_type_id = u8_at entry_data 4,
          part_type_description =
            (case PARTITION_TYPES (u8_at entry_data 4) of None \<Rightarrow> ''Unknown'' | Some d \<Rightarrow> d),
          part_start_lba = u32_at entry_data 8,
          part_size_sectors = u32_at entry_data 12,
          part_size_bytes = u32_at entry_data 12 * 512\<rparr>])"

definition parse_mbr :: "byte list \<Rightarrow> py_error + (mbr_result \<times> mbr_message list)" where
  "parse_mbr mbr_data =
     (if length mbr_data \<noteq> MBR_SIZE then Inl ValueError
      else
        (let signature = py_slice 0x1FE (0x1FE + 2) mbr_data;
             partition_table = py_slice 0x1BE 0x1FE mbr_data
         in Inr (\<lparr>signature_valid = (signature = [0x55, 0xAA]),
                   partitions =
                     concat (map (\<lambda>i. parse_partition_entry i
                                          (py_slice (i * 16) (i * 16 + 16) partition_table))
                                 [0..<4])\<rparr>,
                 if signature = [0x55, 0xAA] then [] else [SignatureInvalidWarning signature])))"

section \<open>Recovery writer (FAT16Recover.py, recover\_file)\<close>

text \<open>
  The \<open>for cluster in cluster_chain\<close> loop. Its state is the host file written so far
  and \<open>bytes_recovered\<close>. A failed or empty cluster read is the \<open>break\<close>; so is
  reaching \<open>file_size\<close>. The loop is entered with \<open>bytes_recovered = 0 < file_size\<close> and
  goes on only while \<open>bytes_recovered < file_size\<close>, so \<open>bytes_remaining\<close> is positive.
  The host file system is taken to accept every write: the \<open>except\<close> branch, which is
  about a host-side error, has no counterpart here.
\<close>

fun write_clusters ::
  "byte list \<Rightarrow> volume \<Rightarrow> nat \<Rightarrow> nat list \<Rightarrow> byte list \<Rightarrow> nat \<Rightarrow> byte list \<times> nat" where
  "write_clusters img vol file_size [] outfile bytes_recovered = (outfile, bytes_recovered)"
| "write_clusters img vol file_size (cluster # rest) outfile bytes_recovered =
     (case read_sector img
             (int (DATA_REGION_START_LBA vol) + (int cluster - 2) * int (SECTORS_PER_CLUSTER vol))
             (SECTORS_PER_CLUSTER vol) of
        None \<Rightarrow> (outfile, bytes_recovered)
      | Some cluster_data \<Rightarrow>
          if cluster_data = [] then (outfile, bytes_recovered)
          else if file_size
                    \<le> bytes_recovered
                        + min (SECTORS_PER_CLUSTER vol * SECTOR_SIZE) (file_size - bytes_recovered)
          then (outfile
                  @ take (min (SECTORS_PER_CLUSTER vol * SECTOR_SIZE) (file_size - bytes_recovered))
                      cluster_data,
                bytes_recovered
                  + min (SECTORS_PER_CLUSTER vol * SECTOR_SIZE) (file_size - bytes_recovered))
          else write_clusters img vol file_size rest
                 (outfile
                    @ take (min (SECTORS_PER_CLUSTER vol * SECTOR_SIZE) (file_size - bytes_recovered))
                        cluster_data)
                 (bytes_recovered
                    + min (SECTORS_PER_CLUSTER vol * SECTOR_SIZE) (file_size - bytes_recovered)))"

text \<open>
  \<open>recover_file\<close> returns \<open>False\<close> without opening the output, or writes the output,
  prints the RECOVERED line with \<open>bytes_recovered\<close> and returns \<open>True\<close>.
\<close>

datatype recover_outcome =
  ReturnedFalse
  | ReturnedTrue (written: "byte list") (reported_bytes: nat)

definition recover_file :: "byte list \<Rightarrow> volume \<Rightarrow> nat \<Rightarrow> nat \<Rightarrow> py_error + recover_outcome" where
  "recover_file img vol start_cluster file_size =
     (if start_cluster < 2 \<or> file_size = 0 then Inr ReturnedFalse
      else
        (case trace_fat_chain (GLOBAL_FAT_DATA vol) start_cluster of
           Inl e \<Rightarrow> Inl e
         | Inr cluster_chain \<Rightarrow>
             if cluster_chain = [] then Inr ReturnedFalse
             else
               (case write_clusters img vol file_size cluster_chain [] 0 of
                  (outfile, bytes_recovered) \<Rightarrow> Inr (ReturnedTrue outfile bytes_recovered))))"

text \<open>The cluster read of the loop, named for the statements about it.\<close>

definition read_cluster :: "byte list \<Rightarrow> volume \<Rightarrow> nat \<Rightarrow> byte list option" where
  "read_cluster img vol cluster =
     read_sector img
       (int (DATA_REGION_START_LBA vol) + (int cluster - 2) * int (SECTORS_PER_CLUSTER vol))
       (SECTORS_PER_CLUSTER vol)"

definition read_ok :: "byte list \<Rightarrow> volume \<Rightarrow> nat \<Rightarrow> bool" where
  "read_ok img vol cluster =
     (case read_cluster img vol cluster of None \<Rightarrow> False | Some d \<Rightarrow> d \<noteq> [])"

definition payload :: "byte list \<Rightarrow> volume \<Rightarrow> nat \<Rightarrow> byte list" where
  "payload img vol cluster =
     (case read_cluster img vol cluster of None \<Rightarrow> [] | Some d \<Rightarrow> d)"

section \<open>Standalone boot-sector decoder (Boot.py, parse\_fat16\_boot\_sector)\<close>

text \<open>
  Raises \<open>ValueError\<close> unless it is given 512 bytes, and \<open>ZeroDivisionError\<close> in the
  ceiling division when the bytes-per-sector field is 0. A wrong signature only prints a
  warning; the flag is part of the result.
\<close>

definition BOOT_SECTOR_SIZE :: nat where
  "BOOT_SECTOR_SIZE = 512"

record boot_parameters =
  bytes_per_sector :: nat
  sectors_per_cluster :: nat
  reserved_sectors :: nat
  num_fats :: nat
  root_entry_count :: nat
  root_size_bytes :: nat
  root_size_sectors :: nat
  fat_size_sectors :: nat
  total_sectors :: nat
  first_fat_sector :: nat
  root_dir_sector :: nat
  data_region_sector :: nat

record boot_result =
  boot_signature_valid :: bool
  parameters :: boot_parameters

definition parse_fat16_boot_sector :: "byte list \<Rightarrow> nat \<Rightarrow> py_error + boot_result" where
  "parse_fat16_boot_sector boot_data partition_start_lba =
     (if length boot_data \<noteq> BOOT_SECTOR_SIZE then Inl ValueError
      else if u16_at boot_data 0x0B = 0 then Inl ZeroDivisionError
      else
        Inr \<lparr>boot_signature_valid = (py_slice 0x1FE (0x1FE + 2) boot_data = [0x55, 0xAA]),
             parameters =
               \<lparr>bytes_per_sector = u16_at boot_data 0x0B,
                sectors_per_cluster = u8_at boot_data 0x0D,
                reserved_sectors = u16_at boot_data 0x0E,
                num_fats = u8_at boot_data 0x10,
                root_entry_count = u16_at boot_data 0x11,
                root_size_bytes = u16_at boot_data 0x11 * 32,
                root_size_sectors =
                  (u16_at boot_data 0x11 * 32 + u16_at boot_data 0x0B - 1) div u16_at boot_data 0x0B,
                fat_size_sectors = u16_at boot_data 0x16,
                total_sectors =
                  (if u16_at boot_data 0x13 \<noteq> 0 then u16_at boot_data 0x13
                   else u32_at boot_data 0x20),
                first_fat_sector = partition_start_lba + u16_at boot_data 0x0E,
                root_dir_sector =
                  partition_start_lba + u16_at boot_data 0x0E
                    + u8_at boot_data 0x10 * u16_at boot_data 0x16,
                data_region_sector =
                  partition_start_lba + u16_at boot_data 0x0E
                    + u8_at boot_data 0x10 * u16_at boot_data 0x16
                    + (u16_at boot_data 0x11 * 32 + u16_at boot_data 0x0B - 1)
                        div u16_at boot_data 0x0B\<rparr>\<rparr>)"

section \<open>Names (FAT16Recover.py, decode\_lfn\_fragment and the name resolution)\<close>

text \<open>
  A Python \<open>str\<close> is the list of its code points. \<open>py_isspace\<close> is the set of
  characters that \<open>str.strip\<close> and \<open>str.rstrip\<close> remove when called without argument.
\<close>

type_synonym pystr = "nat list"

definition py_isspace :: "nat \<Rightarrow> bool" where
  "py_isspace c =
     ((0x09 \<le> c \<and> c \<le> 0x0D) \<or> (0x1C \<le> c \<and> c \<le> 0x20) \<or> c = 0x85 \<or> c = 0xA0
      \<or> c = 0x1680 \<or> (0x2000 \<le> c \<and> c \<le> 0x200A) \<or> c = 0x2028 \<or> c = 0x2029
      \<or> c = 0x202F \<or> c = 0x205F \<or> c = 0x3000)"

definition py_rstrip :: "pystr \<Rightarrow> pystr" where
  "py_rstrip s = rev (dropWhile py_isspace (rev s))"

definition py_strip :: "pystr \<Rightarrow> pystr" where
  "py_strip s = py_rstrip (dropWhile py_isspace s)"

text \<open>
  \<open>bytes.decode('utf-16-le', errors='replace')\<close>: a surrogate pair is one code point;
  a lone surrogate and a high surrogate at the end of the data each become U+FFFD.
  The decoder is applied to the 26 bytes of the three runs of a long-name record, so
  the equations for an odd number of bytes (one U+FFFD for the rest) are not reached
  from the walk.
\<close>

fun utf16_le_decode :: "byte list \<Rightarrow> pystr" where
  "utf16_le_decode [] = []"
| "utf16_le_decode [b] = [0xFFFD]"
| "utf16_le_decode (b0 # b1 # rest) =
     (if unat b0 + 256 * unat b1 < 0xD800 \<or> 0xDFFF < unat b0 + 256 * unat b1
      then (unat b0 + 256 * unat b1) # utf16_le_decode rest
      else if unat b0 + 256 * unat b1 \<le> 0xDBFF
      then
        (case rest of
           l0 # l1 # rest' \<Rightarrow>
             if 0xDC00 \<le> unat l0 + 256 * unat l1 \<and> unat l0 + 256 * unat l1 \<le> 0xDFFF
             then (0x10000 + (unat b0 + 256 * unat b1 - 0xD800) * 0x400
                     + (unat l0 + 256 * unat l1 - 0xDC00)) # utf16_le_decode rest'
             else 0xFFFD # utf16_le_decode rest
         | _ \<Rightarrow> [0xFFFD])
      else 0xFFFD # utf16_le_decode rest)"

text \<open>\<open>bytes.decode('ascii', errors='replace')\<close>: a byte above 0x7F becomes U+FFFD.\<close>

definition ascii_decode :: "byte list \<Rightarrow> pystr" where
  "ascii_decode bs = map (\<lambda>b. if unat b < 128 then unat b else 0xFFFD) bs"

definition decode_lfn_fragment :: "byte list \<Rightarrow> pystr" where
  "decode_lfn_fragment entry_data =
     py_strip
       (takeWhile (\<lambda>c. c \<noteq> 0)
          (utf16_le_decode
             (py_slice 0x01 0x0B entry_data @ py_slice 0x0E 0x1A entry_data
                @ py_slice 0x1C 0x20 entry_data)))"

text \<open>
  Lines 237 to 240: the accumulated fragments, each a pair of sequence number and text,
  are sorted by sequence number (\<open>list.sort\<close> is stable, as \<open>sort_key\<close> is) and joined.
\<close>

definition join_lfn_fragments :: "(nat \<times> pystr) list \<Rightarrow> pystr" where
  "join_lfn_fragments lfn_fragments = concat (map snd (sort_key fst lfn_fragments))"

text \<open>The short-name fallback, with the heuristic for the first byte of a deleted entry.\<close>

definition sfn_name :: "byte list \<Rightarrow> pystr" where
  "sfn_name entry_data =
     (let name_bytes = py_slice 0x00 0x0B entry_data;
          name_bytes' =
            (if entry_data ! 0x00 = 0xE5
             then (if length name_bytes > 1 \<and> name_bytes ! 1 = 0x5F
                   then name_bytes[0 := 0x2E]
                   else name_bytes[0 := 0x5F])
             else name_bytes);
          base_name = py_rstrip (ascii_decode (py_slice 0 8 name_bytes'));
          ext = py_rstrip (ascii_decode (py_slice 8 11 name_bytes'))
      in if ext \<noteq> [] then base_name @ [0x2E] @ ext else base_name)"

definition sanitize :: "pystr \<Rightarrow> pystr" where
  "sanitize name =
     py_strip (map (\<lambda>c. if c = 0x3F \<or> c = 0x2F \<or> c = 0x5C then 0x5F else c) name)"

definition final_name :: "byte list \<Rightarrow> (nat \<times> pystr) list \<Rightarrow> pystr" where
  "final_name entry_data lfn_fragments =
     (let long_name = (if lfn_fragments \<noteq> [] then join_lfn_fragments lfn_fragments else [])
      in sanitize (if long_name = [] then sfn_name entry_data else long_name))"

section \<open>Directory walker (FAT16Recover.py, parse\_and\_recover\_directory)\<close>

text \<open>
  The walk of one directory block. What the source does for a short-name entry is either
  nothing, or to create the host directory and call itself on the subdirectory's first
  cluster, or to call \<open>recover_file\<close>; the model returns these actions in order, each
  with the resolved name, the start cluster and (for a file) the size. The second
  argument of \<open>scan_entries\<close> is \<open>lfn_fragments\<close>.
\<close>

datatype action =
  EnterDirectory pystr nat
  | RecoverFile pystr nat nat

definition LFN_ATTRIBUTES :: byte where
  "LFN_ATTRIBUTES = 0x0F"

fun scan_entries :: "byte list list \<Rightarrow> (nat \<times> pystr) list \<Rightarrow> action list" where
  "scan_entries [] lfn_fragments = []"
| "scan_entries (entry_data # rest) lfn_fragments =
     (if entry_data ! 0x00 = 0x00 then []
      else if entry_data ! 0x0B = LFN_ATTRIBUTES
      then
        (if entry_data ! 0x00 \<noteq> 0xE5
         then scan_entries rest
                (lfn_fragments
                   @ [(unat (entry_data ! 0x00 AND 0x1F), decode_lfn_fragment entry_data)])
         else scan_entries rest lfn_fragments)
      else if final_name entry_data lfn_fragments = [0x2E]
              \<or> final_name entry_data lfn_fragments = [0x2E, 0x2E]
      then scan_entries rest []
      else if (entry_data ! 0x0B AND 0x10) \<noteq> 0
      then
        (if u16_at entry_data 0x1A < 2 then scan_entries rest []
         else EnterDirectory (final_name entry_data lfn_fragments) (u16_at entry_data 0x1A)
                # scan_entries rest [])
      else if u32_at entry_data 0x1C > 0 \<and> u16_at entry_data 0x1A \<ge> 2
      then RecoverFile (final_name entry_data lfn_fragments) (u16_at entry_data 0x1A)
             (u32_at entry_data 0x1C)
             # scan_entries rest []
      else scan_entries rest [])"



definition directory_entries :: "byte list \<Rightarrow> byte list list" where
  "directory_entries dir_data =
     map (\<lambda>i. py_slice (i * 32) (i * 32 + 32) dir_data) [0..<length dir_data div 32]"

definition parse_and_recover_directory :: "byte list \<Rightarrow> volume \<Rightarrow> nat \<Rightarrow> action list" where
  "parse_and_recover_directory img vol start_lba =
     (case read_sector img (int start_lba)
             (if start_lba = ROOT_DIR_START_LBA vol then ROOT_DIR_SECTORS vol
              else SECTORS_PER_CLUSTER vol) of
        None \<Rightarrow> []
      | Some dir_data \<Rightarrow>
          if dir_data = [] then [] else scan_entries (directory_entries dir_data) [])"

section \<open>Concrete inputs\<close>

text \<open>
  FAT buffers used at the concrete checks: scenario S3 (2 to 3, 3 to 4, 4 to end of
  chain), scenario S4 (5 to 6, 6 to 5), a cluster that points to itself, a cluster that
  points to the reserved value 1, and the two reserved entries at the head of a FAT.
\<close>

definition fat_s3 :: "byte list" where
  "fat_s3 = [0xF8, 0xFF, 0xFF, 0xFF, 3, 0, 4, 0, 0xFF, 0xFF]"

definition fat_s4 :: "byte list" where
  "fat_s4 = [0, 0, 0, 0, 0, 0, 0, 0, 0, 0, 6, 0, 5, 0]"

definition fat_self :: "byte list" where
  "fat_self = [0, 0, 0, 0, 2, 0]"

definition fat_reserved :: "byte list" where
  "fat_reserved = [0, 0, 0, 0, 1, 0]"

definition fat_media :: "byte list" where
  "fat_media = [0xF8, 0xFF, 0xFF, 0xFF]"

text \<open>
  A FAT of full size (65,536 entries) in which cluster 2 points to the reserved value
  0xFFF0 and every entry from cluster 3 on is free.
\<close>

definition fat_full :: "byte list" where
  "fat_full = [0xF8, 0xFF, 0xFF, 0xFF, 0xF0, 0xFF] @ replicate 131066 0"


text \<open>
  A volume with one-sector clusters whose data region starts at LBA 3 and whose FAT
  links cluster 2 to cluster 3 and ends the chain there; an image that holds both
  clusters, and one that ends after cluster 2.
\<close>

definition rec_vol :: volume where
  "rec_vol = \<lparr>PARTITION_START_LBA = 0, RESERVED_SECTORS = 1, NUM_FATS = 1,
      FAT_SIZE_SECTORS = 1, ROOT_DIR_SECTORS = 1, SECTORS_PER_CLUSTER = 1,
      FAT1_START_LBA = 1, ROOT_DIR_START_LBA = 2, DATA_REGION_START_LBA = 3,
      GLOBAL_FAT_DATA = [0xF8, 0xFF, 0xFF, 0xFF, 3, 0, 0xFF, 0xFF]\<rparr>"

definition rec_img :: "byte list" where
  "rec_img = replicate 1536 0 @ replicate 512 7 @ replicate 512 9"

definition short_img :: "byte list" where
  "short_img = replicate 1536 0 @ replicate 512 7"

text \<open>
  A disk image of six sectors: a master boot record whose first partition entry is
  bootable, has type 0x06, starts at LBA 1 and has 5 sectors, with the two signature
  bytes as a parameter; a boot sector; two FAT sectors; two further sectors. The boot
  sector has one reserved sector and 16 root entries; the high byte of its
  bytes-per-sector field (2 for 512), its sectors-per-cluster byte, its number-of-FATs
  byte and the low byte of its FAT size are parameters.
\<close>

definition mbr_sector :: "byte list \<Rightarrow> byte list" where
  "mbr_sector sig =
     replicate 446 0 @ [0x80, 0, 0, 0, 0x06, 0, 0, 0, 1, 0, 0, 0, 5, 0, 0, 0]
       @ replicate 48 0 @ sig"

definition vbr_sector :: "byte \<Rightarrow> byte \<Rightarrow> byte \<Rightarrow> byte \<Rightarrow> byte list" where
  "vbr_sector bps_hi spc nfats fat_sz =
     replicate 11 0 @ [0x00, bps_hi, spc, 1, 0, nfats, 16, 0, 0, 0, 0xF8, fat_sz, 0]
       @ replicate 486 0 @ [0x55, 0xAA]"

definition fat_sector :: "byte list" where
  "fat_sector = [0xF8, 0xFF, 0xFF, 0xFF] @ replicate 508 0"

definition disk :: "byte list \<Rightarrow> byte list \<Rightarrow> byte list" where
  "disk sig vbr = mbr_sector sig @ vbr @ fat_sector @ fat_sector @ replicate 1024 0"

text \<open>
  Directory records. Scenario S5: a long-name record with sequence byte 0x42 that
  encodes "o.txt", a long-name record with sequence byte 0x01 that encodes "hell", and
  the short-name entry HELLO.TXT (archive, start cluster 2, 9 bytes). A short-name
  entry named LABEL whose attribute byte, low start-cluster byte and low size byte are
  parameters.
\<close>

definition s5_lfn_last :: "byte list" where
  "s5_lfn_last =
     [0x42, 0x6F, 0x00, 0x2E, 0x00, 0x74, 0x00, 0x78, 0x00, 0x74, 0x00, 0x0F, 0x00, 0x00,
      0x00, 0x00, 0xFF, 0xFF, 0xFF, 0xFF, 0xFF, 0xFF, 0xFF, 0xFF, 0xFF, 0xFF, 0x00, 0x00,
      0xFF, 0xFF, 0xFF, 0xFF]"

definition s5_lfn_first :: "byte list" where
  "s5_lfn_first =
     [0x01, 0x68, 0x00, 0x65, 0x00, 0x6C, 0x00, 0x6C, 0x00, 0x00, 0x00, 0x0F, 0x00, 0x00,
      0xFF, 0xFF, 0xFF, 0xFF, 0xFF, 0xFF, 0xFF, 0xFF, 0xFF, 0xFF, 0xFF, 0xFF, 0x00, 0x00,
      0xFF, 0xFF, 0xFF, 0xFF]"

definition s5_sfn :: "byte list" where
  "s5_sfn =
     [0x48, 0x45, 0x4C, 0x4C, 0x4F, 0x20, 0x20, 0x20, 0x54, 0x58, 0x54, 0x20, 0x00, 0x00,
      0x00, 0x00, 0x00, 0x00, 0x00, 0x00, 0x00, 0x00, 0x00, 0x00, 0x00, 0x00, 0x02, 0x00,
      0x09, 0x00, 0x00, 0x00]"

definition label_entry :: "byte \<Rightarrow> byte \<Rightarrow> byte \<Rightarrow> byte list" where
  "label_entry attributes cluster_byte size_byte =
     [0x4C, 0x41, 0x42, 0x45, 0x4C, 0x20, 0x20, 0x20, 0x20, 0x20, 0x20, attributes, 0x00, 0x00,
      0x00, 0x00, 0x00, 0x00, 0x00, 0x00, 0x00, 0x00, 0x00, 0x00, 0x00, 0x00,
      cluster_byte, 0x00, size_byte, 0x00, 0x00, 0x00]"

section \<open>Facts about the chain loop\<close>

lemma py_slice_two:
  assumes "a + 2 \<le> length xs"
  shows "py_slice a (a + 2) xs = [xs ! a, xs ! (a + 1)]"
proof -
  have "drop a xs = xs ! a # drop (Suc a) xs"
    using assms by (simp add: Cons_nth_drop_Suc)
  moreover have "drop (Suc a) xs = xs ! (Suc a) # drop (Suc (Suc a)) xs"
    using assms by (simp add: Cons_nth_drop_Suc)
  ultimately show ?thesis
    by (simp add: py_slice_def numeral_2_eq_2)
qed

lemma unpack_in_range:
  assumes "c * 2 + 2 \<le> length fat"
  shows "unpack_H (py_slice (c * 2) (c * 2 + 2) fat)
           = Inr (unat (fat ! (c * 2)) + 256 * unat (fat ! (c * 2 + 1)))"
proof -
  have "py_slice (c * 2) (c * 2 + 2) fat = [fat ! (c * 2), fat ! (c * 2 + 1)]"
    using assms by (rule py_slice_two)
  then show ?thesis
    by (simp only: unpack_H_def list.case)
qed

lemma trace_loop_in_range:
  assumes "fat_entry fat c = Some n"
  shows "trace_loop fat c chain =
           (if is_terminator n then Inr (chain @ [c])
            else if length (chain @ [c]) > 65535 then Inr (chain @ [c])
            else trace_loop fat n (chain @ [c]))"
proof -
  from assms have r: "c * 2 + 2 \<le> length fat"
    and n: "n = unat (fat ! (c * 2)) + 256 * unat (fat ! (c * 2 + 1))"
    by (auto simp: fat_entry_def split: if_splits)
  have u: "unpack_H (py_slice (c * 2) (c * 2 + 2) fat) = Inr n"
    using unpack_in_range [OF r] n by simp
  have g: "\<not> length fat < c * 2 + 2"
    using r by simp
  have "trace_loop fat c chain =
          (if 0xFFF8 \<le> n \<and> n \<le> 0xFFFF then Inr (chain @ [c])
           else if n = 0x0000 then Inr (chain @ [c])
           else if n = 0xFFF7 then Inr (chain @ [c])
           else if length (chain @ [c]) > 65535 then Inr (chain @ [c])
           else trace_loop fat n (chain @ [c]))"
    by (subst trace_loop.simps) (simp only: u g if_False sum.case)
  then show ?thesis
    by (simp add: is_terminator_def)
qed

lemma fat_entry_bound: "fat_entry fat c = Some n \<Longrightarrow> n \<le> 0xFFFF"
proof -
  assume h: "fat_entry fat c = Some n"
  have a: "unat (fat ! (c * 2)) < 256"
    using unsigned_less [of "fat ! (c * 2)"] by simp
  have b: "unat (fat ! (c * 2 + 1)) < 256"
    using unsigned_less [of "fat ! (c * 2 + 1)"] by simp
  from h have "n = unat (fat ! (c * 2)) + 256 * unat (fat ! (c * 2 + 1))"
    by (auto simp: fat_entry_def split: if_splits)
  with a b show ?thesis by simp
qed

lemma trace_loop_out_of_range:
  "length fat < c * 2 + 2 \<Longrightarrow> trace_loop fat c chain = Inr chain"
  by (simp add: trace_loop.simps)

lemma trace_loop_stop:
  "fat_entry fat c = Some n \<Longrightarrow> is_terminator n \<Longrightarrow>
     trace_loop fat c chain = Inr (chain @ [c])"
  by (simp add: trace_loop_in_range)

lemma trace_loop_cap:
  "fat_entry fat c = Some n \<Longrightarrow> \<not> is_terminator n \<Longrightarrow> 65535 \<le> length chain \<Longrightarrow>
     trace_loop fat c chain = Inr (chain @ [c])"
  by (simp add: trace_loop_in_range)

lemma trace_loop_follow:
  "fat_entry fat c = Some n \<Longrightarrow> \<not> is_terminator n \<Longrightarrow> length chain < 65535 \<Longrightarrow>
     trace_loop fat c chain = trace_loop fat n (chain @ [c])"
  by (simp add: trace_loop_in_range)

lemma fat_entry_None: "fat_entry fat c = None \<longleftrightarrow> length fat < c * 2 + 2"
  by (auto simp: fat_entry_def)

lemma trace_loop_shape:
  "\<exists>path. trace_loop fat c chain = Inr (chain @ path)
      \<and> (length chain \<le> 65535 \<longrightarrow> length (chain @ path) \<le> 65536)
      \<and> (\<forall>x\<in>set path. x * 2 + 2 \<le> length fat)
      \<and> (path \<noteq> [] \<longrightarrow> hd path = c)
      \<and> (\<forall>x\<in>set (tl path). 1 \<le> x \<and> x \<le> 0xFFF6)"
proof (induction fat c chain rule: trace_loop.induct)
  case (1 fat c chain)
  show ?case
  proof (cases "fat_entry fat c")
    case None
    then have "trace_loop fat c chain = Inr chain"
      by (simp add: fat_entry_None trace_loop_out_of_range)
    then show ?thesis by simp
  next
    case (Some n)
    then have r: "c * 2 + 2 \<le> length fat"
      by (auto simp: fat_entry_def split: if_splits)
    show ?thesis
    proof (cases "is_terminator n \<or> 65535 \<le> length chain")
      case True
      then have "trace_loop fat c chain = Inr (chain @ [c])"
        using Some by (auto simp: trace_loop_in_range)
      then show ?thesis using r by simp
    next
      case False
      then have nt: "\<not> is_terminator n" and len: "length chain < 65535" by auto
      have step: "trace_loop fat c chain = trace_loop fat n (chain @ [c])"
        using Some nt len by (rule trace_loop_follow)
      have u: "unpack_H (py_slice (c * 2) (c * 2 + 2) fat) = Inr n"
        using unpack_in_range [OF r] Some by (simp add: fat_entry_def split: if_splits)
      have "\<exists>path. trace_loop fat n ((chain @ [c])) = Inr ((chain @ [c]) @ path)
        \<and> (length (chain @ [c]) \<le> 65535 \<longrightarrow> length ((chain @ [c]) @ path) \<le> 65536)
        \<and> (\<forall>x\<in>set path. x * 2 + 2 \<le> length fat)
        \<and> (path \<noteq> [] \<longrightarrow> hd path = n)
        \<and> (\<forall>x\<in>set (tl path). 1 \<le> x \<and> x \<le> 0xFFF6)"
        using nt len r by (intro "1.IH" [OF _ u]) (auto simp: is_terminator_def)
      then obtain path where p: "trace_loop fat n (chain @ [c]) = Inr ((chain @ [c]) @ path)"
        "length ((chain @ [c]) @ path) \<le> 65536"
        "\<forall>x\<in>set path. x * 2 + 2 \<le> length fat"
        "path \<noteq> [] \<longrightarrow> hd path = n"
        "\<forall>x\<in>set (tl path). 1 \<le> x \<and> x \<le> 0xFFF6"
        using len by auto
      have nb: "1 \<le> n \<and> n \<le> 0xFFF6"
        using nt fat_entry_bound [OF Some] by (auto simp: is_terminator_def)
      have tl: "\<forall>x\<in>set path. 1 \<le> x \<and> x \<le> 0xFFF6"
      proof (cases path)
        case Nil then show ?thesis by simp
      next
        case (Cons y ys)
        then show ?thesis using p(4,5) nb by auto
      qed
      show ?thesis
        apply (rule exI [of _ "c # path"])
        using step p r tl by auto
    qed
  qed
qed


lemma trace_loop_links:
  "\<exists>path. trace_loop fat c chain = Inr (chain @ path)
      \<and> (path = [] \<longleftrightarrow> fat_entry fat c = None)
      \<and> (path = [] \<or> hd path = c)
      \<and> (\<forall>i. Suc i < length path \<longrightarrow>
             fat_entry fat (path ! i) = Some (path ! Suc i) \<and> \<not> is_terminator (path ! Suc i))
      \<and> (path = [] \<or> 65536 \<le> length (chain @ path)
           \<or> (\<exists>n. fat_entry fat (last path) = Some n
                  \<and> (is_terminator n \<or> fat_entry fat n = None)))"
proof (induction fat c chain rule: trace_loop.induct)
  case (1 fat c chain)
  show ?case
  proof (cases "fat_entry fat c")
    case None
    then have "trace_loop fat c chain = Inr chain"
      by (simp add: fat_entry_None trace_loop_out_of_range)
    then show ?thesis using None by simp
  next
    case (Some n)
    then have r: "c * 2 + 2 \<le> length fat"
      by (auto simp: fat_entry_def split: if_splits)
    show ?thesis
    proof (cases "is_terminator n \<or> 65535 \<le> length chain")
      case True
      then have "trace_loop fat c chain = Inr (chain @ [c])"
        using Some by (auto simp: trace_loop_in_range)
      then show ?thesis
        using Some True by (intro exI [of _ "[c]"]) auto
    next
      case False
      then have nt: "\<not> is_terminator n" and len: "length chain < 65535" by auto
      have step: "trace_loop fat c chain = trace_loop fat n (chain @ [c])"
        using Some nt len by (rule trace_loop_follow)
      have u: "unpack_H (py_slice (c * 2) (c * 2 + 2) fat) = Inr n"
        using unpack_in_range [OF r] Some by (simp add: fat_entry_def split: if_splits)
      have "\<exists>path. trace_loop fat n (chain @ [c]) = Inr ((chain @ [c]) @ path)
        \<and> (path = [] \<longleftrightarrow> fat_entry fat n = None)
        \<and> (path = [] \<or> hd path = n)
        \<and> (\<forall>i. Suc i < length path \<longrightarrow>
               fat_entry fat (path ! i) = Some (path ! Suc i) \<and> \<not> is_terminator (path ! Suc i))
        \<and> (path = [] \<or> 65536 \<le> length ((chain @ [c]) @ path)
             \<or> (\<exists>n. fat_entry fat (last path) = Some n
                    \<and> (is_terminator n \<or> fat_entry fat n = None)))"
        using nt len r by (intro "1.IH" [OF _ u]) (auto simp: is_terminator_def)
      then obtain path where p: "trace_loop fat n (chain @ [c]) = Inr ((chain @ [c]) @ path)"
        "path = [] \<longleftrightarrow> fat_entry fat n = None"
        "path = [] \<or> hd path = n"
        "\<forall>i. Suc i < length path \<longrightarrow>
               fat_entry fat (path ! i) = Some (path ! Suc i) \<and> \<not> is_terminator (path ! Suc i)"
        "path = [] \<or> 65536 \<le> length ((chain @ [c]) @ path)
             \<or> (\<exists>n. fat_entry fat (last path) = Some n
                    \<and> (is_terminator n \<or> fat_entry fat n = None))"
        by (elim exE conjE) (rule that)
      have links: "\<forall>i. Suc i < length (c # path) \<longrightarrow>
             fat_entry fat ((c # path) ! i) = Some ((c # path) ! Suc i)
             \<and> \<not> is_terminator ((c # path) ! Suc i)"
      proof (intro allI impI)
        fix i assume i: "Suc i < length (c # path)"
        show "fat_entry fat ((c # path) ! i) = Some ((c # path) ! Suc i)
             \<and> \<not> is_terminator ((c # path) ! Suc i)"
        proof (cases i)
          case 0
          with i have "path \<noteq> []" by auto
          with p(3) have "path ! 0 = n" by (simp add: hd_conv_nth)
          with 0 Some nt show ?thesis by simp
        next
          case (Suc j)
          with i p(4) show ?thesis by simp
        qed
      qed
      have stop: "65536 \<le> length (chain @ c # path)
           \<or> (\<exists>m. fat_entry fat (last (c # path)) = Some m
                  \<and> (is_terminator m \<or> fat_entry fat m = None))"
      proof (cases "path = []")
        case True
        with p(2) Some show ?thesis by auto
      next
        case False
        with p(5) show ?thesis by auto
      qed
      show ?thesis
        using step p(1) Some links stop by (intro exI [of _ "c # path"]) simp
    qed
  qed
qed


lemma trace_loop_cycle:
  assumes closed: "\<forall>x\<in>S. \<exists>n. fat_entry fat x = Some n \<and> \<not> is_terminator n \<and> n \<in> S"
  shows "c \<in> S \<Longrightarrow> length chain \<le> 65535 \<Longrightarrow>
           \<exists>r. trace_loop fat c chain = Inr r \<and> length r = 65536"
proof (induction "65535 - length chain" arbitrary: c chain)
  case 0
  from closed "0.prems"(1) obtain n where n: "fat_entry fat c = Some n" "\<not> is_terminator n"
    by blast
  have "65535 \<le> length chain" using "0.hyps" by simp
  then have "trace_loop fat c chain = Inr (chain @ [c])"
    using n by (simp add: trace_loop_cap)
  then show ?case using "0.hyps" "0.prems" by simp
next
  case (Suc d)
  from closed Suc.prems(1) obtain n where
    n: "fat_entry fat c = Some n" "\<not> is_terminator n" "n \<in> S"
    by blast
  have len: "length chain < 65535" using Suc.hyps(2) by simp
  have step: "trace_loop fat c chain = trace_loop fat n (chain @ [c])"
    using n(1,2) len by (rule trace_loop_follow)
  have "d = 65535 - length (chain @ [c])" using Suc.hyps(2) by simp
  from Suc.hyps(1) [OF this n(3)] len step show ?case by simp
qed

lemma concat_replicate_snoc: "concat (replicate (Suc k) xs) = concat (replicate k xs) @ xs"
  by (induction k) auto

lemma trace_loop_two_cycle:
  assumes a: "fat_entry fat 5 = Some 6" and b: "fat_entry fat 6 = Some 5"
  shows "k \<le> 32767 \<Longrightarrow>
    trace_loop fat 5 (concat (replicate k [5, 6])) = Inr (concat (replicate 32768 [5, 6]))"
proof (induction "32767 - k" arbitrary: k)
  case 0
  then have k: "k = 32767" by simp
  have l: "length (concat (replicate k [5::nat, 6])) = 65534"
    by (simp add: k length_concat sum_list_replicate)
  have t5: "\<not> is_terminator 5" and t6: "\<not> is_terminator 6"
    by (simp_all add: is_terminator_def)
  have "trace_loop fat 5 (concat (replicate k [5, 6]))
          = trace_loop fat 6 (concat (replicate k [5, 6]) @ [5])"
    using a t6 l by (simp add: trace_loop_follow)
  also have "\<dots> = Inr ((concat (replicate k [5, 6]) @ [5]) @ [6])"
    using b t5 l by (simp add: trace_loop_cap)
  also have "(concat (replicate k [5::nat, 6]) @ [5]) @ [6] = concat (replicate (Suc k) [5, 6])"
    by (simp only: concat_replicate_snoc append_assoc append_Cons append_Nil)
  also have "Suc k = 32768" using k by simp
  finally show ?case .
next
  case (Suc d)
  then have k: "k < 32767" by simp
  have l: "length (concat (replicate k [5::nat, 6])) = 2 * k"
    by (simp add: length_concat sum_list_replicate)
  have t5: "\<not> is_terminator 5" and t6: "\<not> is_terminator 6"
    by (simp_all add: is_terminator_def)
  have "trace_loop fat 5 (concat (replicate k [5, 6]))
          = trace_loop fat 6 (concat (replicate k [5, 6]) @ [5])"
    using a t6 l k by (simp add: trace_loop_follow)
  also have "\<dots> = trace_loop fat 5 ((concat (replicate k [5, 6]) @ [5]) @ [6])"
    using b t5 l k by (simp add: trace_loop_follow)
  also have "(concat (replicate k [5::nat, 6]) @ [5]) @ [6] = concat (replicate (Suc k) [5, 6])"
    by (simp only: concat_replicate_snoc append_assoc append_Cons append_Nil)
  also have "trace_loop fat 5 (concat (replicate (Suc k) [5, 6]))
               = Inr (concat (replicate 32768 [5, 6]))"
    using Suc.hyps(2) k by (intro Suc.hyps(1)) simp_all
  finally show ?case .
qed


section \<open>Claims about chain tracing\<close>

text \<open>
  C10. For every start cluster and every FAT buffer, \<open>trace_fat_chain\<close> returns a chain
  and never raises: the only slice it unpacks is taken after the bounds check and has
  two bytes. When \<open>start_cluster * 2 + 2\<close> exceeds the length of the buffer the result is
  the empty chain, so it does not contain the start cluster.
\<close>

theorem trace_fat_chain_returns:
  "(\<exists>chain. trace_fat_chain fat start_cluster = Inr chain)
   \<and> (length fat < start_cluster * 2 + 2 \<longrightarrow> trace_fat_chain fat start_cluster = Inr [])"
proof -
  obtain path where "trace_loop fat start_cluster [] = Inr ([] @ path)"
    using trace_loop_shape [of fat start_cluster "[]"] by blast
  then have "\<exists>chain. trace_fat_chain fat start_cluster = Inr chain"
    by (simp add: trace_fat_chain_def)
  moreover have "length fat < start_cluster * 2 + 2 \<longrightarrow> trace_fat_chain fat start_cluster = Inr []"
    unfolding trace_fat_chain_def by (rule impI) (rule trace_loop_out_of_range)
  ultimately show ?thesis ..
qed

theorem trace_fat_chain_returns_witness:
  "length [0, 0 :: byte] < 5 * 2 + 2 \<and> trace_fat_chain [0, 0] 5 = Inr []"
  using trace_fat_chain_returns [of "[0, 0]" 5] by simp

text \<open>
  C3, as the code has it. The traversal of every FAT buffer from every start cluster
  returns, and the chain has at most 65,536 elements: the safety break fires when
  \<open>len(chain) > 65535\<close>, that is once the chain holds 65,536 clusters.
\<close>

theorem trace_fat_chain_length_cap:
  "\<exists>chain. trace_fat_chain fat start_cluster = Inr chain \<and> length chain \<le> 65536"
proof -
  obtain path where "trace_loop fat start_cluster [] = Inr ([] @ path)"
    and "length ([] @ path) \<le> 65536"
    using trace_loop_shape [of fat start_cluster "[]"] by auto
  then show ?thesis
    by (simp add: trace_fat_chain_def)
qed

text \<open>
  C3 as stated fails: on a FAT in which cluster 2 points to itself the chain has 65,536
  elements, one more than 65,535.
\<close>

theorem trace_fat_chain_length_counterexample:
  "\<not> (\<exists>chain. trace_fat_chain fat_self 2 = Inr chain \<and> length chain \<le> 65535)"
proof -
  have "\<forall>x\<in>{2::nat}. \<exists>n. fat_entry fat_self x = Some n \<and> \<not> is_terminator n \<and> n \<in> {2::nat}"
    by (simp add: fat_entry_def fat_self_def is_terminator_def)
  from trace_loop_cycle [OF this, of 2 "[]"] show ?thesis
    by (auto simp: trace_fat_chain_def)
qed

text \<open>
  C1, as the code has it. When cluster 5 maps to 6 and cluster 6 maps back to 5, the
  traversal from 5 returns, but only at the length cap: the chain is 5, 6 repeated
  32,768 times. In general the loop does not look for a cluster that is already in the
  chain: from a start cluster inside any set of clusters whose entries are links that
  stay in the set, the traversal ends only when the chain holds 65,536 clusters.
\<close>

theorem trace_fat_chain_cycle:
  "(fat_entry fat 5 = Some 6 \<and> fat_entry fat 6 = Some 5 \<longrightarrow>
      trace_fat_chain fat 5 = Inr (concat (replicate 32768 [5, 6])))
   \<and> ((\<forall>x\<in>S. \<exists>n. fat_entry fat x = Some n \<and> \<not> is_terminator n \<and> n \<in> S)
        \<and> start_cluster \<in> S \<longrightarrow>
      (\<exists>chain. trace_fat_chain fat start_cluster = Inr chain \<and> length chain = 65536))"
proof -
  have a: "fat_entry fat 5 = Some 6 \<and> fat_entry fat 6 = Some 5 \<longrightarrow>
      trace_fat_chain fat 5 = Inr (concat (replicate 32768 [5, 6]))"
    using trace_loop_two_cycle [of fat 0] by (simp add: trace_fat_chain_def)
  have b: "(\<forall>x\<in>S. \<exists>n. fat_entry fat x = Some n \<and> \<not> is_terminator n \<and> n \<in> S)
        \<and> start_cluster \<in> S \<longrightarrow>
      (\<exists>chain. trace_fat_chain fat start_cluster = Inr chain \<and> length chain = 65536)"
    using trace_loop_cycle [of S fat start_cluster "[]"] by (simp add: trace_fat_chain_def)
  from a b show ?thesis ..
qed

theorem trace_fat_chain_cycle_witness:
  "fat_entry fat_s4 5 = Some 6 \<and> fat_entry fat_s4 6 = Some 5
   \<and> trace_fat_chain fat_s4 5 = Inr (concat (replicate 32768 [5, 6]))
   \<and> (\<exists>chain. trace_fat_chain fat_s4 6 = Inr chain \<and> length chain = 65536)"
proof -
  have e: "fat_entry fat_s4 5 = Some 6" "fat_entry fat_s4 6 = Some 5"
    by (simp_all add: fat_entry_def fat_s4_def)
  have c: "\<forall>x\<in>{5, 6}. \<exists>n. fat_entry fat_s4 x = Some n \<and> \<not> is_terminator n \<and> n \<in> {5, 6}"
    by (simp add: e is_terminator_def)
  from trace_fat_chain_cycle [of fat_s4 "{5, 6}" 6] e c show ?thesis
    by simp
qed

text \<open>
  C1 as stated fails on the FAT of scenario S4: the chain from cluster 5 is not of
  length at most 2.
\<close>

theorem trace_fat_chain_cycle_counterexample:
  "\<not> (\<exists>chain. trace_fat_chain fat_s4 5 = Inr chain \<and> length chain \<le> 2)"
proof -
  have "trace_fat_chain fat_s4 5 = Inr (concat (replicate 32768 [5, 6]))"
    using trace_loop_two_cycle [of fat_s4 0]
    by (simp add: trace_fat_chain_def fat_entry_def fat_s4_def)
  then show ?thesis by (simp add: length_concat sum_list_replicate)
qed

lemma s3_chain: "trace_fat_chain fat_s3 2 = Inr [2, 3, 4]"
proof -
  have a: "fat_entry fat_s3 2 = Some 3" and b: "fat_entry fat_s3 3 = Some 4"
    and c: "fat_entry fat_s3 4 = Some 0xFFFF"
    by (simp_all add: fat_entry_def fat_s3_def)
  have "trace_loop fat_s3 2 [] = trace_loop fat_s3 3 ([] @ [2])"
    by (rule trace_loop_follow [OF a]) (simp_all add: is_terminator_def)
  also have "\<dots> = trace_loop fat_s3 4 (([] @ [2]) @ [3])"
    by (rule trace_loop_follow [OF b]) (simp_all add: is_terminator_def)
  also have "\<dots> = Inr ((([] @ [2]) @ [3]) @ [4])"
    by (rule trace_loop_stop [OF c]) (simp add: is_terminator_def)
  finally show ?thesis by (simp add: trace_fat_chain_def)
qed

lemma fat_full_entries:
  "length fat_full = 131072"
  "fat_entry fat_full 2 = Some 0xFFF0"
  "fat_entry fat_full 0xFFF0 = Some 0"
  "fat_entry fat_full 0xFFF8 = Some 0"
  by (simp_all add: fat_full_def fat_entry_def nth_append)

lemma fat_full_chains:
  "trace_fat_chain fat_full 2 = Inr [2, 0xFFF0]"
  "trace_fat_chain fat_full 0xFFF8 = Inr [0xFFF8]"
proof -
  have "trace_loop fat_full 2 [] = trace_loop fat_full 0xFFF0 ([] @ [2])"
    by (rule trace_loop_follow [OF fat_full_entries(2)]) (simp_all add: is_terminator_def)
  also have "\<dots> = Inr (([] @ [2]) @ [0xFFF0])"
    by (rule trace_loop_stop [OF fat_full_entries(3)]) (simp add: is_terminator_def)
  finally show "trace_fat_chain fat_full 2 = Inr [2, 0xFFF0]"
    by (simp add: trace_fat_chain_def)
  have "trace_loop fat_full 0xFFF8 [] = Inr ([] @ [0xFFF8])"
    by (rule trace_loop_stop [OF fat_full_entries(4)]) (simp add: is_terminator_def)
  then show "trace_fat_chain fat_full 0xFFF8 = Inr [0xFFF8]"
    by (simp add: trace_fat_chain_def)
qed

text \<open>
  C2, as the code has it. Every cluster in the chain has its two-byte FAT entry inside
  the loaded buffer. The chain is empty exactly when the entry of the start cluster is
  outside the buffer; otherwise it starts with the start cluster, whatever its value.
  Every later element is the FAT entry of the element before it and lies between 0x0001
  and 0xFFF6, so 0x0000, 0xFFF7 and the end-of-chain values never follow the first
  element. The chain ends only at the length cap or at an element whose entry is free,
  bad, end of chain or a value whose own entry is outside the buffer: the reserved
  values 0x0001 and 0xFFF0 to 0xFFF6 are followed like any other link. The test for a
  start cluster below 2 is in \<open>recover_file\<close>, which returns \<open>False\<close> for start
  clusters 0 and 1 without tracing.
\<close>

theorem trace_fat_chain_elements:
  assumes "trace_fat_chain fat start_cluster = Inr chain"
  shows "(\<forall>c\<in>set chain. c * 2 + 2 \<le> length fat)
       \<and> (chain = [] \<longleftrightarrow> length fat < start_cluster * 2 + 2)
       \<and> (chain = [] \<or> hd chain = start_cluster)
       \<and> (\<forall>i. Suc i < length chain \<longrightarrow> fat_entry fat (chain ! i) = Some (chain ! Suc i))
       \<and> (\<forall>c\<in>set (tl chain). 1 \<le> c \<and> c \<le> 0xFFF6)
       \<and> (chain = [] \<or> length chain = 65536
            \<or> (\<exists>n. fat_entry fat (last chain) = Some n
                   \<and> (is_terminator n \<or> length fat < n * 2 + 2)))
       \<and> recover_file img vol 0 file_size = Inr ReturnedFalse
       \<and> recover_file img vol 1 file_size = Inr ReturnedFalse"
proof -
  obtain path where p: "trace_loop fat start_cluster [] = Inr ([] @ path)"
    "length ([] :: nat list) \<le> 65535 \<longrightarrow> length ([] @ path) \<le> 65536"
    "\<forall>x\<in>set path. x * 2 + 2 \<le> length fat"
    "\<forall>x\<in>set (tl path). 1 \<le> x \<and> x \<le> 0xFFF6"
    using trace_loop_shape [of fat start_cluster "[]"] by blast
  obtain path' where q: "trace_loop fat start_cluster [] = Inr ([] @ path')"
    "path' = [] \<longleftrightarrow> fat_entry fat start_cluster = None"
    "path' = [] \<or> hd path' = start_cluster"
    "\<forall>i. Suc i < length path' \<longrightarrow>
       fat_entry fat (path' ! i) = Some (path' ! Suc i) \<and> \<not> is_terminator (path' ! Suc i)"
    "path' = [] \<or> 65536 \<le> length ([] @ path')
       \<or> (\<exists>n. fat_entry fat (last path') = Some n \<and> (is_terminator n \<or> fat_entry fat n = None))"
    using trace_loop_links [of fat start_cluster "[]"] by (elim exE conjE) (rule that)
  from p(1) assms have c: "chain = path" by (simp add: trace_fat_chain_def)
  from q(1) assms have c': "chain = path'" by (simp add: trace_fat_chain_def)
  have a1: "\<forall>c\<in>set chain. c * 2 + 2 \<le> length fat" using p(3) c by simp
  have a2: "chain = [] \<longleftrightarrow> length fat < start_cluster * 2 + 2"
    using q(2) c' by (simp add: fat_entry_None)
  have a3: "chain = [] \<or> hd chain = start_cluster" using q(3) c' by simp
  have a4: "\<forall>i. Suc i < length chain \<longrightarrow> fat_entry fat (chain ! i) = Some (chain ! Suc i)"
    using q(4) c' by simp
  have a5: "\<forall>c\<in>set (tl chain). 1 \<le> c \<and> c \<le> 0xFFF6" using p(4) c by simp
  have len: "length chain \<le> 65536" using p(2) c by simp
  have a6: "chain = [] \<or> length chain = 65536
            \<or> (\<exists>n. fat_entry fat (last chain) = Some n
                   \<and> (is_terminator n \<or> length fat < n * 2 + 2))"
    using q(5) c' len by (auto simp: fat_entry_None)
  have a7: "recover_file img vol 0 file_size = Inr ReturnedFalse"
    "recover_file img vol 1 file_size = Inr ReturnedFalse"
    by (simp_all add: recover_file_def)
  from a1 a2 a3 a4 a5 a6 a7 show ?thesis by blast
qed

theorem trace_fat_chain_elements_witness:
  "trace_fat_chain fat_full 2 = Inr [2, 0xFFF0]
   \<and> list_all (\<lambda>c. c * 2 + 2 \<le> length fat_full) [2, 0xFFF0]
   \<and> hd [2, 0xFFF0 :: nat] = 2
   \<and> fat_entry fat_full ([2, 0xFFF0] ! 0) = Some ([2, 0xFFF0] ! Suc 0)
   \<and> list_all (\<lambda>c. 1 \<le> c \<and> c \<le> 0xFFF6) (tl [2, 0xFFF0 :: nat])
   \<and> fat_entry fat_full (last [2, 0xFFF0]) = Some 0 \<and> is_terminator 0"
  using trace_fat_chain_elements [OF fat_full_chains(1)] fat_full_chains(1)
  by (simp add: fat_full_entries is_terminator_def)

text \<open>
  C2 as stated fails: the reserved values 1 and 0xFFF0 are followed and become chain
  elements, the chain from the end-of-chain value 0xFFF8 as start cluster holds that
  value, and the chain from start cluster 0 is not empty when the FAT holds its entry.
\<close>

theorem trace_fat_chain_elements_counterexample:
  "trace_fat_chain fat_reserved 2 = Inr [2, 1] \<and> \<not> (\<forall>c\<in>set [2, 1 :: nat]. 2 \<le> c)
   \<and> trace_fat_chain fat_full 2 = Inr [2, 0xFFF0]
   \<and> trace_fat_chain fat_full 0xFFF8 = Inr [0xFFF8]
   \<and> trace_fat_chain fat_media 0 = Inr [0] \<and> [0 :: nat] \<noteq> []"
proof -
  have a: "fat_entry fat_reserved 2 = Some 1" and b: "fat_entry fat_reserved 1 = Some 0"
    and c: "fat_entry fat_media 0 = Some 0xFFF8"
    by (simp_all add: fat_entry_def fat_reserved_def fat_media_def)
  have "trace_loop fat_reserved 2 [] = trace_loop fat_reserved 1 ([] @ [2])"
    by (rule trace_loop_follow [OF a]) (simp_all add: is_terminator_def)
  also have "\<dots> = Inr (([] @ [2]) @ [1])"
    by (rule trace_loop_stop [OF b]) (simp add: is_terminator_def)
  finally have x: "trace_fat_chain fat_reserved 2 = Inr [2, 1]"
    by (simp add: trace_fat_chain_def)
  have "trace_loop fat_media 0 [] = Inr ([] @ [0])"
    by (rule trace_loop_stop [OF c]) (simp add: is_terminator_def)
  then show ?thesis using x fat_full_chains by (simp add: trace_fat_chain_def)
qed

section \<open>Facts about the recovery writer\<close>

lemma read_sector_length: "read_sector img lba count = Some d \<Longrightarrow> length d = SECTOR_SIZE * count"
  by (auto simp: read_sector_def Let_def split: if_splits)

lemma read_ok_payload:
  "read_ok img vol c \<Longrightarrow>
     read_cluster img vol c = Some (payload img vol c) \<and> payload img vol c \<noteq> []
     \<and> length (payload img vol c) = SECTORS_PER_CLUSTER vol * SECTOR_SIZE"
  by (auto simp: read_ok_def payload_def read_cluster_def split: option.splits
           dest: read_sector_length)

lemma write_clusters_step:
  "write_clusters img vol file_size (cluster # rest) outfile bytes_recovered =
     (if \<not> read_ok img vol cluster then (outfile, bytes_recovered)
      else if file_size \<le> bytes_recovered
                + min (SECTORS_PER_CLUSTER vol * SECTOR_SIZE) (file_size - bytes_recovered)
      then (outfile @ take (min (SECTORS_PER_CLUSTER vol * SECTOR_SIZE) (file_size - bytes_recovered))
                        (payload img vol cluster),
            bytes_recovered + min (SECTORS_PER_CLUSTER vol * SECTOR_SIZE) (file_size - bytes_recovered))
      else write_clusters img vol file_size rest
             (outfile @ take (min (SECTORS_PER_CLUSTER vol * SECTOR_SIZE) (file_size - bytes_recovered))
                         (payload img vol cluster))
             (bytes_recovered + min (SECTORS_PER_CLUSTER vol * SECTOR_SIZE) (file_size - bytes_recovered)))"
  by (cases "read_cluster img vol cluster")
     (auto simp: read_ok_def payload_def read_cluster_def)

lemma write_clusters_complete:
  "\<forall>c\<in>set cs. read_ok img vol c \<Longrightarrow> n < file_size \<Longrightarrow>
   file_size \<le> n + length (concat (map (payload img vol) cs)) \<Longrightarrow>
   write_clusters img vol file_size cs out n
     = (out @ take (file_size - n) (concat (map (payload img vol) cs)), file_size)"
proof (induction cs arbitrary: out n)
  case Nil
  then show ?case by simp
next
  case (Cons c cs)
  from Cons.prems(1) have ok: "read_ok img vol c" by simp
  note pl = read_ok_payload [OF ok]
  let ?d = "payload img vol c"
  let ?bpc = "SECTORS_PER_CLUSTER vol * SECTOR_SIZE"
  have ld: "length ?d = ?bpc" using pl by simp
  show ?case
  proof (cases "file_size - n \<le> ?bpc")
    case True
    then have m: "min ?bpc (file_size - n) = file_size - n" by simp
    have "write_clusters img vol file_size (c # cs) out n
            = (out @ take (file_size - n) ?d, n + (file_size - n))"
      using ok Cons.prems(2) by (simp only: write_clusters_step m) simp
    moreover have "take (file_size - n) (concat (map (payload img vol) (c # cs)))
                     = take (file_size - n) ?d"
      using True ld by simp
    ultimately show ?thesis using Cons.prems(2) by simp
  next
    case False
    then have m: "min ?bpc (file_size - n) = ?bpc" by simp
    have n': "n + ?bpc < file_size" using False by simp
    have "write_clusters img vol file_size (c # cs) out n
            = write_clusters img vol file_size cs (out @ take ?bpc ?d) (n + ?bpc)"
      using ok n' by (simp only: write_clusters_step m) simp
    also have "take ?bpc ?d = ?d" using ld by simp
    also have "write_clusters img vol file_size cs (out @ ?d) (n + ?bpc)
                 = ((out @ ?d) @ take (file_size - (n + ?bpc)) (concat (map (payload img vol) cs)),
                    file_size)"
      using Cons.prems n' ld by (intro Cons.IH) auto
    also have "(out @ ?d) @ take (file_size - (n + ?bpc)) (concat (map (payload img vol) cs))
                 = out @ take (file_size - n) (concat (map (payload img vol) (c # cs)))"
      using ld n' by simp
    finally show ?thesis .
  qed
qed

lemma write_clusters_failed_read:
  "\<forall>c\<in>set pre. read_ok img vol c \<Longrightarrow> \<not> read_ok img vol c \<Longrightarrow>
   n + length (concat (map (payload img vol) pre)) < file_size \<Longrightarrow>
   write_clusters img vol file_size (pre @ c # post) out n
     = (out @ concat (map (payload img vol) pre),
        n + length (concat (map (payload img vol) pre)))"
proof (induction pre arbitrary: out n)
  case Nil
  then show ?case by (simp only: append_Nil write_clusters_step) simp
next
  case (Cons p pre)
  from Cons.prems(1) have ok: "read_ok img vol p" by simp
  note pl = read_ok_payload [OF ok]
  let ?d = "payload img vol p"
  let ?bpc = "SECTORS_PER_CLUSTER vol * SECTOR_SIZE"
  have ld: "length ?d = ?bpc" using pl by simp
  have n': "n + ?bpc < file_size" using Cons.prems(3) ld by simp
  then have m: "min ?bpc (file_size - n) = ?bpc" by simp
  have "write_clusters img vol file_size ((p # pre) @ c # post) out n
          = write_clusters img vol file_size (pre @ c # post) (out @ take ?bpc ?d) (n + ?bpc)"
    using ok n' by (simp only: append_Cons write_clusters_step m) simp
  also have "take ?bpc ?d = ?d" using ld by simp
  also have "write_clusters img vol file_size (pre @ c # post) (out @ ?d) (n + ?bpc)
               = ((out @ ?d) @ concat (map (payload img vol) pre),
                  (n + ?bpc) + length (concat (map (payload img vol) pre)))"
    using Cons.prems ld by (intro Cons.IH) auto
  finally show ?case using ld by simp
qed

lemma rec_chain: "trace_fat_chain (GLOBAL_FAT_DATA rec_vol) 2 = Inr [2, 3]"
proof -
  have a: "fat_entry (GLOBAL_FAT_DATA rec_vol) 2 = Some 3"
    and b: "fat_entry (GLOBAL_FAT_DATA rec_vol) 3 = Some 0xFFFF"
    by (simp_all add: fat_entry_def rec_vol_def)
  have "trace_loop (GLOBAL_FAT_DATA rec_vol) 2 [] = trace_loop (GLOBAL_FAT_DATA rec_vol) 3 ([] @ [2])"
    by (rule trace_loop_follow [OF a]) (simp_all add: is_terminator_def)
  also have "\<dots> = Inr (([] @ [2]) @ [3])"
    by (rule trace_loop_stop [OF b]) (simp add: is_terminator_def)
  finally show ?thesis by (simp add: trace_fat_chain_def)
qed

lemma rec_reads:
  "read_cluster rec_img rec_vol 2 = Some (replicate 512 7)"
  "read_cluster rec_img rec_vol 3 = Some (replicate 512 9)"
  "read_cluster short_img rec_vol 2 = Some (replicate 512 7)"
  "read_cluster short_img rec_vol 3 = None"
  by (simp_all add: read_cluster_def read_sector_def rec_vol_def rec_img_def short_img_def
        SECTOR_SIZE_def)

section \<open>Claims about the recovery writer\<close>

text \<open>
  C4. For a file of recorded size N that is recovered (start cluster at least 2, N
  positive), whose cluster reads all succeed and whose chain supplies at least N bytes,
  the bytes written to the host file are the first N bytes of the concatenation of the
  chain's cluster payloads, and the host file has exactly N bytes: the slack of the
  last cluster is not written.
\<close>

theorem recover_file_exact:
  assumes "2 \<le> start_cluster" and "0 < file_size"
    and "trace_fat_chain (GLOBAL_FAT_DATA vol) start_cluster = Inr chain"
    and "\<forall>c\<in>set chain. read_ok img vol c"
    and "file_size \<le> length (concat (map (payload img vol) chain))"
  shows "recover_file img vol start_cluster file_size
           = Inr (ReturnedTrue (take file_size (concat (map (payload img vol) chain))) file_size)
         \<and> length (take file_size (concat (map (payload img vol) chain))) = file_size"
proof -
  have ne: "chain \<noteq> []" using assms(2,5) by auto
  have "write_clusters img vol file_size chain [] 0
          = ([] @ take (file_size - 0) (concat (map (payload img vol) chain)), file_size)"
    using assms(2,4,5) by (intro write_clusters_complete) simp_all
  then show ?thesis
    using assms(1,2,3,5) ne by (simp add: recover_file_def)
qed

theorem recover_file_exact_witness:
  "recover_file rec_img rec_vol 2 515 = Inr (ReturnedTrue (replicate 512 7 @ replicate 3 9) 515)
   \<and> length (replicate 512 (7::byte) @ replicate 3 9) = 515"
proof -
  have "\<forall>c\<in>set [2, 3]. read_ok rec_img rec_vol c"
    by (simp add: read_ok_def rec_reads)
  moreover have "515 \<le> length (concat (map (payload rec_img rec_vol) [2, 3]))"
    by (simp add: payload_def rec_reads)
  ultimately show ?thesis
    using recover_file_exact [OF _ _ rec_chain, of 515 rec_img]
    by (simp add: payload_def rec_reads)
qed

text \<open>
  C5, as the code has it. When the read of a cluster of the chain fails before
  \<open>file_size\<close> bytes are written, the loop stops; the host file holds exactly the bytes
  already written, the payloads of the clusters before the failing one; nothing is
  raised; and \<open>recover_file\<close> prints the RECOVERED line with that byte count and returns
  \<open>True\<close>, as it does for a complete recovery.
\<close>

theorem recover_file_failed_read:
  assumes "2 \<le> start_cluster" and "0 < file_size"
    and "trace_fat_chain (GLOBAL_FAT_DATA vol) start_cluster = Inr (pre @ c # post)"
    and "\<forall>x\<in>set pre. read_ok img vol x"
    and "\<not> read_ok img vol c"
    and "length (concat (map (payload img vol) pre)) < file_size"
  shows "recover_file img vol start_cluster file_size
           = Inr (ReturnedTrue (concat (map (payload img vol) pre))
                    (length (concat (map (payload img vol) pre))))"
proof -
  have "write_clusters img vol file_size (pre @ c # post) [] 0
          = ([] @ concat (map (payload img vol) pre),
             0 + length (concat (map (payload img vol) pre)))"
    using assms(4,5,6) by (intro write_clusters_failed_read) simp_all
  then show ?thesis
    using assms(1,2,3) by (simp add: recover_file_def)
qed

theorem recover_file_failed_read_witness:
  "(2::nat) \<le> 2 \<and> (0::nat) < 515
   \<and> trace_fat_chain (GLOBAL_FAT_DATA rec_vol) 2 = Inr ([2] @ 3 # [])
   \<and> read_ok short_img rec_vol 2 \<and> \<not> read_ok short_img rec_vol 3
   \<and> length (concat (map (payload short_img rec_vol) [2])) < 515
   \<and> recover_file short_img rec_vol 2 515 = Inr (ReturnedTrue (replicate 512 7) 512)"
proof -
  have ok: "\<forall>x\<in>set [2]. read_ok short_img rec_vol x" and bad: "\<not> read_ok short_img rec_vol 3"
    by (simp_all add: read_ok_def rec_reads)
  have c: "trace_fat_chain (GLOBAL_FAT_DATA rec_vol) 2 = Inr ([2] @ 3 # [])"
    using rec_chain by simp
  have l: "length (concat (map (payload short_img rec_vol) [2])) < 515"
    by (simp add: payload_def rec_reads)
  have "recover_file short_img rec_vol 2 515
          = Inr (ReturnedTrue (concat (map (payload short_img rec_vol) [2]))
                   (length (concat (map (payload short_img rec_vol) [2]))))"
    by (rule recover_file_failed_read [OF _ _ c ok bad l]) simp_all
  then show ?thesis using ok bad c l by (simp add: payload_def rec_reads)
qed

text \<open>
  C5 as stated fails: on the image that ends after cluster 2 the read of cluster 3
  fails mid-stream, 512 of the 515 bytes are written, and the outcome is the one of a
  successful recovery, not a failure.
\<close>

theorem recover_file_partial_counterexample:
  "read_ok short_img rec_vol 2 \<and> \<not> read_ok short_img rec_vol 3
   \<and> trace_fat_chain (GLOBAL_FAT_DATA rec_vol) 2 = Inr [2, 3]
   \<and> recover_file short_img rec_vol 2 515 \<noteq> Inr ReturnedFalse
   \<and> (\<exists>out n. recover_file short_img rec_vol 2 515 = Inr (ReturnedTrue out n) \<and> length out < 515)"
proof -
  have ok: "\<forall>x\<in>set [2]. read_ok short_img rec_vol x" and bad: "\<not> read_ok short_img rec_vol 3"
    by (simp_all add: read_ok_def rec_reads)
  have "write_clusters short_img rec_vol 515 ([2] @ 3 # []) [] 0
          = ([] @ concat (map (payload short_img rec_vol) [2]),
             0 + length (concat (map (payload short_img rec_vol) [2])))"
    by (rule write_clusters_failed_read [OF ok bad]) (simp add: payload_def rec_reads)
  then have "recover_file short_img rec_vol 2 515 = Inr (ReturnedTrue (replicate 512 7) 512)"
    using rec_chain by (simp add: recover_file_def payload_def rec_reads)
  then show ?thesis using ok bad rec_chain by simp
qed

section \<open>Facts about volume setup\<close>

lemma read_sector_first:
  "read_sector img 0 1 = (if length img < 512 then None else Some (take 512 img))"
  by (auto simp: read_sector_def SECTOR_SIZE_def Let_def)

lemma read_sector_none: "0 \<le> lba \<Longrightarrow> read_sector img lba 0 = Some []"
  by (simp add: read_sector_def Let_def)

lemma setup_short: "length img < 512 \<Longrightarrow> setup_disk_params img = None"
  by (simp add: setup_disk_params_def read_sector_first del: One_nat_def)

lemma setup_nosig:
  "py_slice 0x1FE 0x200 (take 512 img) \<noteq> [0x55, 0xAA] \<Longrightarrow> setup_disk_params img = None"
  by (simp add: setup_disk_params_def read_sector_first del: One_nat_def)

lemma setup_cases:
  assumes m: "read_sector img 0 1 = Some mbr_data"
    and s: "py_slice 0x1FE 0x200 mbr_data = [0x55, 0xAA]"
    and v: "read_sector img
              (int (u32_at (py_slice PARTITION_TABLE_OFFSET (PARTITION_TABLE_OFFSET + 16) mbr_data) 8)) 1
              = Some vbr_data"
  shows "setup_disk_params img =
     (case read_sector img
             (int (u32_at (py_slice PARTITION_TABLE_OFFSET (PARTITION_TABLE_OFFSET + 16) mbr_data) 8
                     + u16_at vbr_data 0x0E))
             (u16_at vbr_data 0x16) of
        None \<Rightarrow> None
      | Some fat_data \<Rightarrow>
          if fat_data = [] then None
          else Some \<lparr>PARTITION_START_LBA =
                       u32_at (py_slice PARTITION_TABLE_OFFSET (PARTITION_TABLE_OFFSET + 16) mbr_data) 8,
                     RESERVED_SECTORS = u16_at vbr_data 0x0E,
                     NUM_FATS = u8_at vbr_data 0x10,
                     FAT_SIZE_SECTORS = u16_at vbr_data 0x16,
                     ROOT_DIR_SECTORS = (u16_at vbr_data 0x11 * 32 + SECTOR_SIZE - 1) div SECTOR_SIZE,
                     SECTORS_PER_CLUSTER = u8_at vbr_data 0x0D,
                     FAT1_START_LBA =
                       u32_at (py_slice PARTITION_TABLE_OFFSET (PARTITION_TABLE_OFFSET + 16) mbr_data) 8
                         + u16_at vbr_data 0x0E,
                     ROOT_DIR_START_LBA =
                       u32_at (py_slice PARTITION_TABLE_OFFSET (PARTITION_TABLE_OFFSET + 16) mbr_data) 8
                         + u16_at vbr_data 0x0E + u8_at vbr_data 0x10 * u16_at vbr_data 0x16,
                     DATA_REGION_START_LBA =
                       u32_at (py_slice PARTITION_TABLE_OFFSET (PARTITION_TABLE_OFFSET + 16) mbr_data) 8
                         + u16_at vbr_data 0x0E + u8_at vbr_data 0x10 * u16_at vbr_data 0x16
                         + (u16_at vbr_data 0x11 * 32 + SECTOR_SIZE - 1) div SECTOR_SIZE,
                     GLOBAL_FAT_DATA = fat_data\<rparr>)"
proof -
  have "length mbr_data = 512" "length vbr_data = 512"
    using m v by (auto simp: read_sector_def SECTOR_SIZE_def Let_def split: if_splits)
  then have ne: "mbr_data \<noteq> []" "vbr_data \<noteq> []" by auto
  show ?thesis
    unfolding setup_disk_params_def
    by (simp only: m s v ne Let_def option.case if_False simp_thms)
qed


lemma setup_fat_size:
  assumes "setup_disk_params img = Some vol"
  shows "1 \<le> FAT_SIZE_SECTORS vol"
proof -
  from assms obtain vbr_data fat_data lba where
    f: "read_sector img lba (u16_at vbr_data 0x16) = Some fat_data"
    and ne: "fat_data \<noteq> []"
    and vol: "FAT_SIZE_SECTORS vol = u16_at vbr_data 0x16"
    by (auto simp: setup_disk_params_def Let_def split: option.splits if_splits simp del: One_nat_def)
  from f have "length fat_data = SECTOR_SIZE * u16_at vbr_data 0x16"
    by (auto simp: read_sector_def Let_def split: if_splits)
  with ne have "1 \<le> u16_at vbr_data 0x16"
    by (cases "u16_at vbr_data 0x16") simp_all
  with vol show ?thesis by simp
qed

lemma mbr_sector_len: "length sig = 2 \<Longrightarrow> length (mbr_sector sig) = 512"
  by (simp add: mbr_sector_def)

lemma vbr_sector_len: "length (vbr_sector h a b z) = 512"
  by (simp add: vbr_sector_def)

lemma fat_sector_len: "length fat_sector = 512"
  by (simp add: fat_sector_def)

lemma disk_reads:
  assumes "length sig = 2" and "length vbr = 512"
  shows "read_sector (disk sig vbr) 0 1 = Some (mbr_sector sig)"
    "read_sector (disk sig vbr) 1 1 = Some vbr"
    "read_sector (disk sig vbr) 2 1 = Some fat_sector"
  using assms
  by (simp_all add: read_sector_def disk_def SECTOR_SIZE_def mbr_sector_len fat_sector_len)

lemma mbr_fields:
  "length sig = 2 \<Longrightarrow> py_slice 0x1FE 0x200 (mbr_sector sig) = sig"
  "u32_at (py_slice PARTITION_TABLE_OFFSET (PARTITION_TABLE_OFFSET + 16) (mbr_sector sig)) 8 = 1"
  by (simp_all add: py_slice_def mbr_sector_def PARTITION_TABLE_OFFSET_def u32_at_def nth_append)

lemma vbr_fields:
  "u16_at (vbr_sector h a b z) 0x0B = 256 * unat h"
  "u8_at (vbr_sector h a b z) 0x0D = unat a"
  "u16_at (vbr_sector h a b z) 0x0E = 1"
  "u8_at (vbr_sector h a b z) 0x10 = unat b"
  "u16_at (vbr_sector h a b z) 0x11 = 16"
  "u16_at (vbr_sector h a b z) 0x16 = unat z"
  by (simp_all add: vbr_sector_def u8_at_def u16_at_def nth_append)

lemma take_disk: "length sig = 2 \<Longrightarrow> take 512 (disk sig vbr) = mbr_sector sig"
  by (simp add: disk_def mbr_sector_len)

lemma length_disk: "length sig = 2 \<Longrightarrow> length vbr = 512 \<Longrightarrow> length (disk sig vbr) = 3072"
  by (simp add: disk_def mbr_sector_len fat_sector_len)

lemma setup_disk:
  "setup_disk_params (disk [0x55, 0xAA] (vbr_sector h a b 1)) =
     Some \<lparr>PARTITION_START_LBA = 1, RESERVED_SECTORS = 1, NUM_FATS = unat b,
           FAT_SIZE_SECTORS = 1, ROOT_DIR_SECTORS = 1, SECTORS_PER_CLUSTER = unat a,
           FAT1_START_LBA = 2, ROOT_DIR_START_LBA = 2 + unat b, DATA_REGION_START_LBA = 3 + unat b,
           GLOBAL_FAT_DATA = fat_sector\<rparr>"
proof -
  have m: "read_sector (disk [0x55, 0xAA] (vbr_sector h a b 1)) 0 1 = Some (mbr_sector [0x55, 0xAA])"
    by (simp add: disk_reads vbr_sector_len del: One_nat_def)
  have s: "py_slice 0x1FE 0x200 (mbr_sector [0x55, 0xAA]) = [0x55, 0xAA]"
    by (simp add: mbr_fields)
  have v: "read_sector (disk [0x55, 0xAA] (vbr_sector h a b 1))
             (int (u32_at (py_slice PARTITION_TABLE_OFFSET (PARTITION_TABLE_OFFSET + 16)
                             (mbr_sector [0x55, 0xAA])) 8)) 1
           = Some (vbr_sector h a b 1)"
    by (simp add: mbr_fields disk_reads vbr_sector_len del: One_nat_def)
  have f: "fat_sector \<noteq> []" by (simp add: fat_sector_def)
  show ?thesis
    by (simp add: setup_cases [OF m s v] mbr_fields vbr_fields disk_reads vbr_sector_len f
          SECTOR_SIZE_def del: One_nat_def)
qed

lemma mbr_partitions:
  "length sig = 2 \<Longrightarrow>
   concat (map (\<lambda>i. parse_partition_entry i
                       (py_slice (i * 16) (i * 16 + 16) (py_slice 0x1BE 0x1FE (mbr_sector sig))))
               [0..<4])
     = [\<lparr>part_index = 1, part_bootable = True, part_type_id = 6,
         part_type_description = ''FAT16'', part_start_lba = 1, part_size_sectors = 5,
         part_size_bytes = 2560\<rparr>]"
proof -
  assume l: "length sig = 2"
  have t: "py_slice 0x1BE 0x1FE (mbr_sector sig)
             = [0x80, 0, 0, 0, 0x06, 0, 0, 0, 1, 0, 0, 0, 5, 0, 0, 0] @ replicate 48 0"
    using l by (simp add: py_slice_def mbr_sector_def)
  have u: "[0..<4] = [0, 1, 2, 3]"
    by (simp add: upt_conv_Cons)
  have e0: "py_slice (0 * 16) (0 * 16 + 16)
              ([0x80, 0, 0, 0, 0x06, 0, 0, 0, 1, 0, 0, 0, 5, 0, 0, 0] @ replicate 48 (0 :: byte))
            = [0x80, 0, 0, 0, 0x06, 0, 0, 0, 1, 0, 0, 0, 5, 0, 0, 0]"
    and e1: "py_slice (1 * 16) (1 * 16 + 16)
              ([0x80, 0, 0, 0, 0x06, 0, 0, 0, 1, 0, 0, 0, 5, 0, 0, 0] @ replicate 48 (0 :: byte))
            = replicate 16 0"
    and e2: "py_slice (2 * 16) (2 * 16 + 16)
              ([0x80, 0, 0, 0, 0x06, 0, 0, 0, 1, 0, 0, 0, 5, 0, 0, 0] @ replicate 48 (0 :: byte))
            = replicate 16 0"
    and e3: "py_slice (3 * 16) (3 * 16 + 16)
              ([0x80, 0, 0, 0, 0x06, 0, 0, 0, 1, 0, 0, 0, 5, 0, 0, 0] @ replicate 48 (0 :: byte))
            = replicate 16 0"
    by (simp_all add: py_slice_def)
  have p0: "parse_partition_entry 0 [0x80, 0, 0, 0, 0x06, 0, 0, 0, 1, 0, 0, 0, 5, 0, 0, 0]
              = [\<lparr>part_index = 1, part_bootable = True, part_type_id = 6,
                  part_type_description = ''FAT16'', part_start_lba = 1, part_size_sectors = 5,
                  part_size_bytes = 2560\<rparr>]"
  proof -
    have "[0x80, 0, 0, 0, 0x06, 0, 0, 0, 1, 0, 0, 0, 5, 0, 0, 0] \<noteq> replicate 16 (0 :: byte)"
    proof
      assume "[0x80, 0, 0, 0, 0x06, 0, 0, 0, 1, 0, 0, 0, 5, 0, 0, 0] = replicate 16 (0 :: byte)"
      then have "[0x80, 0, 0, 0, 0x06, 0, 0, 0, 1, 0, 0, 0, 5, 0, 0, 0] ! 0 = replicate 16 (0 :: byte) ! 0"
        by (rule arg_cong)
      then show False by simp
    qed
    then show ?thesis
      by (simp add: parse_partition_entry_def u8_at_def u32_at_def PARTITION_TYPES_def)
  qed
  have pz: "parse_partition_entry i (replicate 16 0) = []" for i
    by (simp add: parse_partition_entry_def)
  show ?thesis
    unfolding t u by (simp only: list.map concat.simps e0 e1 e2 e3 p0 pz append_Nil2 append_Nil)
qed

section \<open>Claims about volume setup\<close>

text \<open>
  C6, as the code has it. The standalone MBR decoder fails only on an image shorter than
  512 bytes; on 512 bytes without the trailing signature 0x55 0xAA it prints a warning,
  records that the signature is invalid and still returns the partitions decoded from
  the four entries of the table, the same as with the signature. Volume setup
  (\<open>setup_disk_params\<close>) fails on an image shorter than 512 bytes and also whenever the
  signature is absent.
\<close>

theorem mbr_signature_handling:
  "(length img < 512 \<longrightarrow> read_mbr_from_file img = None \<and> setup_disk_params img = None)
   \<and> (512 \<le> length img \<longrightarrow>
        read_mbr_from_file img = Some (take 512 img)
        \<and> (\<exists>r msgs. parse_mbr (take 512 img) = Inr (r, msgs)
              \<and> signature_valid r = (py_slice 0x1FE 0x200 (take 512 img) = [0x55, 0xAA])
              \<and> partitions r =
                  concat (map (\<lambda>i. parse_partition_entry i
                                      (py_slice (i * 16) (i * 16 + 16)
                                         (py_slice 0x1BE 0x1FE (take 512 img))))
                              [0..<4])
              \<and> msgs = (if signature_valid r then []
                         else [SignatureInvalidWarning (py_slice 0x1FE 0x200 (take 512 img))])))
   \<and> (py_slice 0x1FE 0x200 (take 512 img) \<noteq> [0x55, 0xAA] \<longrightarrow> setup_disk_params img = None)"
proof -
  have a: "length img < 512 \<longrightarrow> read_mbr_from_file img = None \<and> setup_disk_params img = None"
    by (simp add: setup_short read_mbr_from_file_def MBR_SIZE_def Let_def)
  have b: "512 \<le> length img \<longrightarrow>
        read_mbr_from_file img = Some (take 512 img)
        \<and> (\<exists>r msgs. parse_mbr (take 512 img) = Inr (r, msgs)
              \<and> signature_valid r = (py_slice 0x1FE 0x200 (take 512 img) = [0x55, 0xAA])
              \<and> partitions r =
                  concat (map (\<lambda>i. parse_partition_entry i
                                      (py_slice (i * 16) (i * 16 + 16)
                                         (py_slice 0x1BE 0x1FE (take 512 img))))
                              [0..<4])
              \<and> msgs = (if signature_valid r then []
                         else [SignatureInvalidWarning (py_slice 0x1FE 0x200 (take 512 img))]))"
    by (simp add: read_mbr_from_file_def parse_mbr_def MBR_SIZE_def Let_def)
  have c: "py_slice 0x1FE 0x200 (take 512 img) \<noteq> [0x55, 0xAA] \<longrightarrow> setup_disk_params img = None"
    by (simp add: setup_nosig)
  from a b c show ?thesis by blast
qed

theorem mbr_signature_handling_witness:
  "length ([] :: byte list) < 512 \<and> read_mbr_from_file [] = None \<and> setup_disk_params [] = None
   \<and> 512 \<le> length (disk [0, 0] (vbr_sector 2 8 2 1))
   \<and> py_slice 0x1FE 0x200 (take 512 (disk [0, 0] (vbr_sector 2 8 2 1))) \<noteq> [0x55, 0xAA]
   \<and> (\<exists>r msgs. parse_mbr (take 512 (disk [0, 0] (vbr_sector 2 8 2 1))) = Inr (r, msgs)
         \<and> \<not> signature_valid r
         \<and> partitions r =
             [\<lparr>part_index = 1, part_bootable = True, part_type_id = 6,
               part_type_description = ''FAT16'', part_start_lba = 1, part_size_sectors = 5,
               part_size_bytes = 2560\<rparr>]
         \<and> msgs = [SignatureInvalidWarning [0, 0]])
   \<and> setup_disk_params (disk [0, 0] (vbr_sector 2 8 2 1)) = None"
proof -
  have t: "take 512 (disk [0, 0] (vbr_sector 2 8 2 1)) = mbr_sector [0, 0]"
    by (simp add: take_disk)
  have l: "length (disk [0, 0] (vbr_sector 2 8 2 1)) = 3072"
    by (simp add: length_disk vbr_sector_len)
  have s: "py_slice 0x1FE 0x200 (mbr_sector [0, 0]) = [0, 0]"
    by (simp add: mbr_fields)
  have p: "concat (map (\<lambda>i. parse_partition_entry i
                       (py_slice (i * 16) (i * 16 + 16) (py_slice 0x1BE 0x1FE (mbr_sector [0, 0]))))
               [0..<4])
     = [\<lparr>part_index = 1, part_bootable = True, part_type_id = 6,
         part_type_description = ''FAT16'', part_start_lba = 1, part_size_sectors = 5,
         part_size_bytes = 2560\<rparr>]"
    by (rule mbr_partitions) simp
  note e = mbr_signature_handling [of "[]"]
  note d = mbr_signature_handling [of "disk [0, 0] (vbr_sector 2 8 2 1)", unfolded t s p]
  from e d show ?thesis
    unfolding t s by (auto simp: l split: if_splits)
qed

text \<open>
  C6 as stated fails: of two images of six sectors that differ only in the two
  signature bytes of the master boot record, volume setup succeeds on the one with the
  signature and is aborted on the one without.
\<close>

theorem mbr_signature_counterexample:
  "512 \<le> length (disk [0, 0] (vbr_sector 2 8 2 1))
   \<and> setup_disk_params (disk [0x55, 0xAA] (vbr_sector 2 8 2 1)) \<noteq> None
   \<and> setup_disk_params (disk [0, 0] (vbr_sector 2 8 2 1)) = None"
proof -
  have "py_slice 0x1FE 0x200 (take 512 (disk [0, 0] (vbr_sector 2 8 2 1))) \<noteq> [0x55, 0xAA]"
    by (simp add: take_disk mbr_fields)
  then have "setup_disk_params (disk [0, 0] (vbr_sector 2 8 2 1)) = None"
    by (rule setup_nosig)
  then show ?thesis by (simp add: setup_disk length_disk vbr_sector_len)
qed

text \<open>
  C7, as the code has it. Volume setup checks none of bytes per sector, sectors per
  cluster and number of FATs. Once the master boot record with its signature and the
  boot sector have been read, the outcome depends on the FAT size and the FAT read
  alone: setup fails when the FAT size is 0 (the FAT read returns no data) or the FAT
  cannot be read, and otherwise it succeeds with the geometry exactly as the boot
  sector holds it, whatever the other fields are (the bytes-per-sector field is not
  read, 512 is used). So every volume that setup returns has a FAT of at least one
  sector.
\<close>

theorem setup_disk_params_geometry:
  "(\<forall>vol. setup_disk_params img = Some vol \<longrightarrow> 1 \<le> FAT_SIZE_SECTORS vol)
   \<and> (read_sector img 0 1 = Some mbr_data
        \<and> py_slice 0x1FE 0x200 mbr_data = [0x55, 0xAA]
        \<and> read_sector img
             (int (u32_at (py_slice PARTITION_TABLE_OFFSET (PARTITION_TABLE_OFFSET + 16) mbr_data) 8)) 1
             = Some vbr_data \<longrightarrow>
       (u16_at vbr_data 0x16 = 0 \<longrightarrow> setup_disk_params img = None)
       \<and> (read_sector img
             (int (u32_at (py_slice PARTITION_TABLE_OFFSET (PARTITION_TABLE_OFFSET + 16) mbr_data) 8
                     + u16_at vbr_data 0x0E))
             (u16_at vbr_data 0x16) = None \<longrightarrow> setup_disk_params img = None)
       \<and> (\<forall>fat_data.
             1 \<le> u16_at vbr_data 0x16
             \<and> read_sector img
                 (int (u32_at (py_slice PARTITION_TABLE_OFFSET (PARTITION_TABLE_OFFSET + 16) mbr_data) 8
                         + u16_at vbr_data 0x0E))
                 (u16_at vbr_data 0x16) = Some fat_data \<longrightarrow>
             setup_disk_params img =
               Some \<lparr>PARTITION_START_LBA =
                       u32_at (py_slice PARTITION_TABLE_OFFSET (PARTITION_TABLE_OFFSET + 16) mbr_data) 8,
                     RESERVED_SECTORS = u16_at vbr_data 0x0E,
                     NUM_FATS = u8_at vbr_data 0x10,
                     FAT_SIZE_SECTORS = u16_at vbr_data 0x16,
                     ROOT_DIR_SECTORS = (u16_at vbr_data 0x11 * 32 + SECTOR_SIZE - 1) div SECTOR_SIZE,
                     SECTORS_PER_CLUSTER = u8_at vbr_data 0x0D,
                     FAT1_START_LBA =
                       u32_at (py_slice PARTITION_TABLE_OFFSET (PARTITION_TABLE_OFFSET + 16) mbr_data) 8
                         + u16_at vbr_data 0x0E,
                     ROOT_DIR_START_LBA =
                       u32_at (py_slice PARTITION_TABLE_OFFSET (PARTITION_TABLE_OFFSET + 16) mbr_data) 8
                         + u16_at vbr_data 0x0E + u8_at vbr_data 0x10 * u16_at vbr_data 0x16,
                     DATA_REGION_START_LBA =
                       u32_at (py_slice PARTITION_TABLE_OFFSET (PARTITION_TABLE_OFFSET + 16) mbr_data) 8
                         + u16_at vbr_data 0x0E + u8_at vbr_data 0x10 * u16_at vbr_data 0x16
                         + (u16_at vbr_data 0x11 * 32 + SECTOR_SIZE - 1) div SECTOR_SIZE,
                     GLOBAL_FAT_DATA = fat_data\<rparr>))"
proof (intro conjI allI impI)
  fix vol assume "setup_disk_params img = Some vol"
  then show "1 \<le> FAT_SIZE_SECTORS vol" by (rule setup_fat_size)
next
  assume h: "read_sector img 0 1 = Some mbr_data
        \<and> py_slice 0x1FE 0x200 mbr_data = [0x55, 0xAA]
        \<and> read_sector img
             (int (u32_at (py_slice PARTITION_TABLE_OFFSET (PARTITION_TABLE_OFFSET + 16) mbr_data) 8)) 1
             = Some vbr_data"
    and z: "u16_at vbr_data 0x16 = 0"
  from h z show "setup_disk_params img = None"
    by (simp add: setup_cases [of img mbr_data vbr_data] read_sector_none)
next
  assume h: "read_sector img 0 1 = Some mbr_data
        \<and> py_slice 0x1FE 0x200 mbr_data = [0x55, 0xAA]
        \<and> read_sector img
             (int (u32_at (py_slice PARTITION_TABLE_OFFSET (PARTITION_TABLE_OFFSET + 16) mbr_data) 8)) 1
             = Some vbr_data"
    and n: "read_sector img
             (int (u32_at (py_slice PARTITION_TABLE_OFFSET (PARTITION_TABLE_OFFSET + 16) mbr_data) 8
                     + u16_at vbr_data 0x0E))
             (u16_at vbr_data 0x16) = None"
  from h n show "setup_disk_params img = None"
    by (simp add: setup_cases [of img mbr_data vbr_data])
next
  fix fat_data
  assume h: "read_sector img 0 1 = Some mbr_data
        \<and> py_slice 0x1FE 0x200 mbr_data = [0x55, 0xAA]
        \<and> read_sector img
             (int (u32_at (py_slice PARTITION_TABLE_OFFSET (PARTITION_TABLE_OFFSET + 16) mbr_data) 8)) 1
             = Some vbr_data"
    and f: "1 \<le> u16_at vbr_data 0x16
             \<and> read_sector img
                 (int (u32_at (py_slice PARTITION_TABLE_OFFSET (PARTITION_TABLE_OFFSET + 16) mbr_data) 8
                         + u16_at vbr_data 0x0E))
                 (u16_at vbr_data 0x16) = Some fat_data"
  from f have "length fat_data = SECTOR_SIZE * u16_at vbr_data 0x16"
    by (auto simp: read_sector_def Let_def split: if_splits)
  with f have ne: "fat_data \<noteq> []"
    by (auto simp: SECTOR_SIZE_def)
  from h f ne show "setup_disk_params img =
               Some \<lparr>PARTITION_START_LBA =
                       u32_at (py_slice PARTITION_TABLE_OFFSET (PARTITION_TABLE_OFFSET + 16) mbr_data) 8,
                     RESERVED_SECTORS = u16_at vbr_data 0x0E,
                     NUM_FATS = u8_at vbr_data 0x10,
                     FAT_SIZE_SECTORS = u16_at vbr_data 0x16,
                     ROOT_DIR_SECTORS = (u16_at vbr_data 0x11 * 32 + SECTOR_SIZE - 1) div SECTOR_SIZE,
                     SECTORS_PER_CLUSTER = u8_at vbr_data 0x0D,
                     FAT1_START_LBA =
                       u32_at (py_slice PARTITION_TABLE_OFFSET (PARTITION_TABLE_OFFSET + 16) mbr_data) 8
                         + u16_at vbr_data 0x0E,
                     ROOT_DIR_START_LBA =
                       u32_at (py_slice PARTITION_TABLE_OFFSET (PARTITION_TABLE_OFFSET + 16) mbr_data) 8
                         + u16_at vbr_data 0x0E + u8_at vbr_data 0x10 * u16_at vbr_data 0x16,
                     DATA_REGION_START_LBA =
                       u32_at (py_slice PARTITION_TABLE_OFFSET (PARTITION_TABLE_OFFSET + 16) mbr_data) 8
                         + u16_at vbr_data 0x0E + u8_at vbr_data 0x10 * u16_at vbr_data 0x16
                         + (u16_at vbr_data 0x11 * 32 + SECTOR_SIZE - 1) div SECTOR_SIZE,
                     GLOBAL_FAT_DATA = fat_data\<rparr>"
    by (simp add: setup_cases [of img mbr_data vbr_data])
qed


theorem setup_disk_params_geometry_witness:
  "read_sector (disk [0x55, 0xAA] (vbr_sector 0 3 0 1)) 0 1 = Some (mbr_sector [0x55, 0xAA])
   \<and> read_sector (disk [0x55, 0xAA] (vbr_sector 0 3 0 1)) 1 1 = Some (vbr_sector 0 3 0 1)
   \<and> read_sector (disk [0x55, 0xAA] (vbr_sector 0 3 0 1)) 2 1 = Some fat_sector
   \<and> u16_at (vbr_sector 0 3 0 1) 0x0B = 0
   \<and> setup_disk_params (disk [0x55, 0xAA] (vbr_sector 0 3 0 1)) =
        Some \<lparr>PARTITION_START_LBA = 1, RESERVED_SECTORS = 1, NUM_FATS = 0,
              FAT_SIZE_SECTORS = 1, ROOT_DIR_SECTORS = 1, SECTORS_PER_CLUSTER = 3,
              FAT1_START_LBA = 2, ROOT_DIR_START_LBA = 2, DATA_REGION_START_LBA = 3,
              GLOBAL_FAT_DATA = fat_sector\<rparr>
   \<and> u16_at (vbr_sector 2 8 2 0) 0x16 = 0
   \<and> setup_disk_params (disk [0x55, 0xAA] (vbr_sector 2 8 2 0)) = None"
proof -
  have r: "read_sector (disk [0x55, 0xAA] (vbr_sector h a b z)) 0 1 = Some (mbr_sector [0x55, 0xAA])"
    "read_sector (disk [0x55, 0xAA] (vbr_sector h a b z)) 1 1 = Some (vbr_sector h a b z)"
    "read_sector (disk [0x55, 0xAA] (vbr_sector h a b z)) 2 1 = Some fat_sector" for h a b z
    by (simp_all add: disk_reads vbr_sector_len del: One_nat_def)
  have s: "py_slice 0x1FE 0x200 (mbr_sector [0x55, 0xAA]) = [0x55, 0xAA]"
    by (simp add: mbr_fields)
  note g = setup_disk_params_geometry
    [of "disk [0x55, 0xAA] (vbr_sector 0 3 0 1)" "mbr_sector [0x55, 0xAA]" "vbr_sector 0 3 0 1"]
  note z = setup_disk_params_geometry
    [of "disk [0x55, 0xAA] (vbr_sector 2 8 2 0)" "mbr_sector [0x55, 0xAA]" "vbr_sector 2 8 2 0"]
  have a: "setup_disk_params (disk [0x55, 0xAA] (vbr_sector 0 3 0 1)) =
        Some \<lparr>PARTITION_START_LBA = 1, RESERVED_SECTORS = 1, NUM_FATS = 0,
              FAT_SIZE_SECTORS = 1, ROOT_DIR_SECTORS = 1, SECTORS_PER_CLUSTER = 3,
              FAT1_START_LBA = 2, ROOT_DIR_START_LBA = 2, DATA_REGION_START_LBA = 3,
              GLOBAL_FAT_DATA = fat_sector\<rparr>"
    using g by (simp add: r s mbr_fields vbr_fields SECTOR_SIZE_def del: One_nat_def)
  have b: "setup_disk_params (disk [0x55, 0xAA] (vbr_sector 2 8 2 0)) = None"
    using z by (simp add: r s mbr_fields vbr_fields del: One_nat_def)
  from a b show ?thesis
    by (simp add: r vbr_fields del: One_nat_def)
qed

text \<open>
  C7 as stated fails: with 0 in the bytes-per-sector field, 3 sectors per cluster (not a
  power of two) and 0 FATs in the boot sector, volume setup succeeds and returns that
  geometry; the standalone boot-sector decoder also returns 3 sectors per cluster and
  0 FATs when the bytes-per-sector field is 512.
\<close>

theorem setup_disk_params_geometry_counterexample:
  "u16_at (vbr_sector 0 3 0 1) 0x0B = 0
   \<and> u8_at (vbr_sector 0 3 0 1) 0x0D = 3
   \<and> u8_at (vbr_sector 0 3 0 1) 0x10 = 0
   \<and> read_sector (disk [0x55, 0xAA] (vbr_sector 0 3 0 1)) 1 1 = Some (vbr_sector 0 3 0 1)
   \<and> setup_disk_params (disk [0x55, 0xAA] (vbr_sector 0 3 0 1)) =
        Some \<lparr>PARTITION_START_LBA = 1, RESERVED_SECTORS = 1, NUM_FATS = 0,
              FAT_SIZE_SECTORS = 1, ROOT_DIR_SECTORS = 1, SECTORS_PER_CLUSTER = 3,
              FAT1_START_LBA = 2, ROOT_DIR_START_LBA = 2, DATA_REGION_START_LBA = 3,
              GLOBAL_FAT_DATA = fat_sector\<rparr>
   \<and> (\<exists>r. parse_fat16_boot_sector (vbr_sector 2 3 0 1) 1 = Inr r
          \<and> sectors_per_cluster (parameters r) = 3 \<and> num_fats (parameters r) = 0)"
proof -
  have "\<exists>r. parse_fat16_boot_sector (vbr_sector 2 3 0 1) 1 = Inr r
          \<and> sectors_per_cluster (parameters r) = 3 \<and> num_fats (parameters r) = 0"
    by (simp add: parse_fat16_boot_sector_def vbr_sector_len BOOT_SECTOR_SIZE_def vbr_fields)
  then show ?thesis
    using setup_disk [of 0 3 0]
    by (simp add: vbr_fields disk_reads vbr_sector_len del: One_nat_def)
qed

section \<open>Facts about names and the directory walk\<close>

lemma decode_last: "decode_lfn_fragment s5_lfn_last = map of_char ''o.txt''"
  by (simp add: decode_lfn_fragment_def s5_lfn_last_def py_slice_def py_strip_def py_rstrip_def
        py_isspace_def)

lemma decode_first: "decode_lfn_fragment s5_lfn_first = map of_char ''hell''"
  by (simp add: decode_lfn_fragment_def s5_lfn_first_def py_slice_def py_strip_def py_rstrip_def
        py_isspace_def)





lemma s5_scan:
  "scan_entries [s5_lfn_last, s5_lfn_first, s5_sfn] []
     = [RecoverFile (map of_char ''hello.txt'') 2 9]"
proof -
  have a: "s5_lfn_last ! 0x00 = 0x42" "s5_lfn_last ! 0x0B = 0x0F"
    "s5_lfn_first ! 0x00 = 0x01" "s5_lfn_first ! 0x0B = 0x0F"
    "s5_sfn ! 0x00 = 0x48" "s5_sfn ! 0x0B = 0x20"
    "u16_at s5_sfn 0x1A = 2" "u32_at s5_sfn 0x1C = 9"
    by (simp_all add: s5_lfn_last_def s5_lfn_first_def s5_sfn_def u16_at_def u32_at_def)
  show ?thesis
    by (simp add: a decode_last decode_first LFN_ATTRIBUTES_def final_name_def
          join_lfn_fragments_def sanitize_def py_strip_def py_rstrip_def py_isspace_def)
qed


lemma directory_entries_length:
  assumes "e \<in> set (directory_entries dir_data)"
  shows "length e = 32"
proof -
  from assms obtain i where i: "i < length dir_data div 32"
    and e: "e = py_slice (i * 32) (i * 32 + 32) dir_data"
    by (auto simp: directory_entries_def)
  from i have "i * 32 + 32 \<le> length dir_data"
    by (simp add: less_iff_succ_less_eq less_eq_div_iff_mult_less_eq)
  with e show ?thesis
    by (simp add: py_slice_def)
qed


lemma label_fields:
  "label_entry a c z ! 0x00 = 0x4C" "label_entry a c z ! 0x0B = a"
  "u16_at (label_entry a c z) 0x1A = unat c" "u32_at (label_entry a c z) 0x1C = unat z"
  by (simp_all add: label_entry_def u16_at_def u32_at_def)

lemma label_name: "a \<noteq> 0 \<Longrightarrow> final_name (label_entry a c z) [] = map of_char ''LABEL''"
  by (simp add: final_name_def sfn_name_def sanitize_def py_strip_def py_rstrip_def
        py_isspace_def py_slice_def ascii_decode_def label_entry_def Let_def)






section \<open>Claims about the directory walk\<close>



text \<open>
  C9, as the code has it. A short-name entry that has the volume-label bit 0x08 set,
  the directory bit clear and a size of 0 or a start cluster below 2, which is how a
  volume label is stored, is skipped: nothing is recovered or entered for it and the
  pending long-name fragments are dropped. The walk has no test of the bit itself.
\<close>

theorem volume_label_skipped:
  assumes "entry_data ! 0x00 \<noteq> 0x00" and "entry_data ! 0x0B \<noteq> LFN_ATTRIBUTES"
    and "(entry_data ! 0x0B AND 0x08) \<noteq> 0" and "(entry_data ! 0x0B AND 0x10) = 0"
    and "u32_at entry_data 0x1C = 0 \<or> u16_at entry_data 0x1A < 2"
  shows "scan_entries (entry_data # rest) lfn_fragments = scan_entries rest []"
  using assms by auto

theorem volume_label_skipped_witness:
  "label_entry 0x08 0 0 ! 0x00 \<noteq> 0x00 \<and> label_entry 0x08 0 0 ! 0x0B \<noteq> LFN_ATTRIBUTES
   \<and> (label_entry 0x08 0 0 ! 0x0B AND 0x08) \<noteq> 0 \<and> (label_entry 0x08 0 0 ! 0x0B AND 0x10) = 0
   \<and> u32_at (label_entry 0x08 0 0) 0x1C = 0
   \<and> scan_entries [label_entry 0x08 0 0, s5_lfn_last, s5_lfn_first, s5_sfn] []
        = [RecoverFile (map of_char ''hello.txt'') 2 9]"
proof -
  have h: "label_entry 0x08 0 0 ! 0x00 \<noteq> 0x00" "label_entry 0x08 0 0 ! 0x0B \<noteq> LFN_ATTRIBUTES"
    "(label_entry 0x08 0 0 ! 0x0B AND 0x08) \<noteq> 0" "(label_entry 0x08 0 0 ! 0x0B AND 0x10) = 0"
    "u32_at (label_entry 0x08 0 0) 0x1C = 0 \<or> u16_at (label_entry 0x08 0 0) 0x1A < 2"
    by (simp_all add: label_fields LFN_ATTRIBUTES_def)
  have "scan_entries (label_entry 0x08 0 0 # [s5_lfn_last, s5_lfn_first, s5_sfn]) []
          = scan_entries [s5_lfn_last, s5_lfn_first, s5_sfn] []"
    by (rule volume_label_skipped [OF h])
  with h s5_scan show ?thesis by (simp add: label_fields)
qed

text \<open>
  C9 as stated fails: an entry with the volume-label bit set, start cluster 2 and size 1
  is recovered as a file, and one that has the directory bit as well is entered as a
  directory.
\<close>

theorem volume_label_counterexample:
  "(label_entry 0x08 2 1 ! 0x0B AND 0x08) \<noteq> 0
   \<and> scan_entries [label_entry 0x08 2 1] [] = [RecoverFile (map of_char ''LABEL'') 2 1]
   \<and> (label_entry 0x18 2 0 ! 0x0B AND 0x08) \<noteq> 0
   \<and> scan_entries [label_entry 0x18 2 0] [] = [EnterDirectory (map of_char ''LABEL'') 2]"
proof -
  have n: "final_name (label_entry 0x08 2 1) [] = map of_char ''LABEL''"
    "final_name (label_entry 0x18 2 0) [] = map of_char ''LABEL''"
    by (simp_all add: label_name)
  show ?thesis
    by (simp add: label_fields n LFN_ATTRIBUTES_def)
qed

end
